theory Spec2Isabelle
  imports Complex_Main
begin

section \<open>Data model of \<open>functions/diagnostics.py\<close>\<close>

text \<open>
  A floating-point cell value is an ideal real, or missing: \<open>None\<close> stands for NaN.
  Arithmetic with NaN gives NaN; rounding is not modelled.
\<close>

type_synonym fval = "real option"

definition isnan :: "fval \<Rightarrow> bool" where
  "isnan v = (v = None)"

text \<open>The exceptions the module raises, or lets through from the code it calls.\<close>

datatype error =
    AssertionError
  | ValueError string
  | NotImplementedError string
  | AttributeError string
  | KeyError string
  | TypeError string
  | IndexError string
  | FileNotFoundError string

datatype level = DEBUG | WARNING | ERROR

type_synonym logrecord = "level \<times> string"

record timestamp =
  ts_year :: int
  ts_month :: nat
  ts_day :: nat

text \<open>
  The leading dimension of a field: the time axis of an input, the \<open>year\<close> or \<open>month\<close>
  axis a \<open>groupby\<close> leaves, or none once the time axis has been reduced away.
\<close>

datatype axis =
    Time "timestamp list"
  | Year "int list"
  | Month "nat list"
  | Reduced

datatype attrval = AStr string | ANum real

text \<open>
  An \<open>xarray.DataArray\<close> on dimensions (lat, lon, leading axis). The data are held cell by
  cell: \<open>da_data da ! i ! j\<close> is the series of the cell at \<open>da_lat da ! i\<close>, \<open>da_lon da ! j\<close>
  along the leading axis (one value when the axis is \<open>Reduced\<close>). The attribute dictionary
  \<open>attrs\<close> is split: its \<open>units\<close> entry, a text attribute whenever present, is the field
  \<open>da_units\<close>; every other entry is in the association list \<open>da_attrs\<close>.
\<close>

record dataarray =
  da_axis :: axis
  da_lat :: "real list"
  da_lon :: "real list"
  da_data :: "fval list list list"
  da_units :: "string option"
  da_attrs :: "(string \<times> attrval) list"
  da_encoding :: "(string \<times> attrval) list"

subsection \<open>Strings\<close>

definition lower_char :: "char \<Rightarrow> char" where
  "lower_char c =
     (case map_of (zip ''ABCDEFGHIJKLMNOPQRSTUVWXYZ'' ''abcdefghijklmnopqrstuvwxyz'') c of
        None \<Rightarrow> c
      | Some d \<Rightarrow> d)"

text \<open>\<open>str.lower()\<close> on ASCII text.\<close>

definition lower :: "string \<Rightarrow> string" where
  "lower s = map lower_char s"

subsection \<open>Unit normalisation\<close>

text \<open>\<open>da.data *= k\<close> and \<open>da.data -= k\<close>: in place on every value, NaN stays NaN.\<close>

definition map_data :: "(real \<Rightarrow> real) \<Rightarrow> dataarray \<Rightarrow> dataarray" where
  "map_data f da = da\<lparr>da_data := map (map (map (map_option f))) (da_data da)\<rparr>"

definition set_units :: "string \<Rightarrow> dataarray \<Rightarrow> dataarray" where
  "set_units u da = da\<lparr>da_units := Some u\<rparr>"

definition unit_not_covered :: "string \<Rightarrow> string \<Rightarrow> error" where
  "unit_not_covered unit varn = ValueError (''Unit '' @ unit @ '' not covered for '' @ varn)"

text \<open>
  \<open>standardize_units(da, varn)\<close>. The result is the pair of what the call returns or
  raises (\<open>Inr None\<close> is the Python value \<open>None\<close>) and the records it sends to the logger.
\<close>

definition standardize_units ::
  "dataarray \<Rightarrow> string \<Rightarrow> (error + dataarray option) \<times> logrecord list" where
  "standardize_units da varn =
     (case da_units da of
        None \<Rightarrow> (Inr None, [(WARNING, ''units attribute not found for '' @ varn)])
      | Some unit \<Rightarrow>
          if varn = ''pr'' then
            (let newunit = ''mm/day'' in
             if unit = ''kg m-2 s-1'' then
               (Inr (Some (set_units newunit (map_data (\<lambda>x. x * (24*60*60)) da))), [])
             else if unit = ''mm'' then (Inr (Some (set_units newunit da)), [])
             else if unit = newunit then (Inr (Some da), [])
             else (Inl (unit_not_covered unit varn), []))
          else if varn \<in> set [''tas'', ''tasmax'', ''tasmin'', ''tos''] then
            (let newunit = ''degC'' in
             if unit = newunit then (Inr (Some da), [])
             else if unit = ''K'' then
               (Inr (Some (set_units newunit (map_data (\<lambda>x. x - 273.15) da))), [])
             else if lower unit \<in> set [''degc'', ''deg_c'', ''celsius'', ''degreec'',
                                         ''degree_c'', ''degree_celsius''] then
               (Inr (Some (set_units newunit da)), [])
             else (Inl (unit_not_covered unit varn), []))
          else if varn \<in> set [''psl''] then
            (let newunit = ''pa'' in
             if lower unit = newunit then (Inr (Some da), [])
             else if lower unit = ''hPa'' then
               (Inr (Some (set_units newunit (map_data (\<lambda>x. x * 100) da))), [])
             else (Inl (unit_not_covered unit varn), []))
          else if varn \<in> set [''rsds'', ''rsus'', ''rlds'', ''rlus'', ''rnet''] then
            (let newunit = ''W m**-2'' in
             if unit = newunit then (Inr (Some da), [])
             else if unit = ''W m-2'' then (Inr (Some (set_units newunit da)), [])
             else (Inl (unit_not_covered unit varn), []))
          else
            (Inr (Some da),
             [(WARNING, ''Variable '' @ varn @ '' not covered in standardize_units'')]))"

subsection \<open>Paths and text\<close>

text \<open>\<open>str.replace(old, new)\<close>: every non-overlapping occurrence, from the left. The counter
  skips the rest of an occurrence just replaced. An empty \<open>old\<close> matches before every
  character and at the end.\<close>

fun replace_from :: "string \<Rightarrow> string \<Rightarrow> nat \<Rightarrow> string \<Rightarrow> string" where
  "replace_from old new k [] = (if old = [] then new else [])"
| "replace_from old new (Suc k) (c # s) = replace_from old new k s"
| "replace_from old new 0 (c # s) =
     (if old = [] then new @ c # replace_from old new 0 s
      else if take (length old) (c # s) = old then new @ replace_from old new (length old - 1) s
      else c # replace_from old new 0 s)"

definition str_replace :: "string \<Rightarrow> string \<Rightarrow> string \<Rightarrow> string" where
  "str_replace old new s = replace_from old new 0 s"

text \<open>\<open>sep.join(xs)\<close>.\<close>

fun str_join :: "string \<Rightarrow> string list \<Rightarrow> string" where
  "str_join sep [] = []"
| "str_join sep [x] = x"
| "str_join sep (x # y # ys) = x @ sep @ str_join sep (y # ys)"

fun str_nat :: "nat \<Rightarrow> string" where
  "str_nat n =
     (if n < 10 then [''0123456789'' ! n]
      else str_nat (n div 10) @ [''0123456789'' ! (n mod 10)])"

declare str_nat.simps [simp del]

definition str_int :: "int \<Rightarrow> string" where
  "str_int i = (if i < 0 then ''-'' @ str_nat (nat (- i)) else str_nat (nat i))"

definition os_path_basename :: "string \<Rightarrow> string" where
  "os_path_basename p = rev (takeWhile (\<lambda>c. c \<noteq> CHR ''/'') (rev p))"

definition os_path_join :: "string \<Rightarrow> string \<Rightarrow> string" where
  "os_path_join a b =
     (if take 1 b = ''/'' then b
      else if a = [] \<or> last a = CHR ''/'' then a @ b
      else a @ ''/'' @ b)"

definition os_path_split :: "string \<Rightarrow> string \<times> string" where
  "os_path_split p =
     (let head = rev (dropWhile (\<lambda>c. c \<noteq> CHR ''/'') (rev p));
          tail = os_path_basename p
      in (if head \<noteq> [] \<and> head \<noteq> replicate (length head) (CHR ''/'')
          then rev (dropWhile (\<lambda>c. c = CHR ''/'') (rev head)) else head,
          tail))"

subsection \<open>Arguments\<close>

text \<open>
  The keyword arguments. A bound of the time period is a string or an integer (the code
  applies \<open>str\<close> to it); the period is \<open>None\<close> or a sequence of bounds; a season and an
  aggregation are \<open>None\<close> or a string; a region is a string or a list of strings.
\<close>

datatype bound = BStr string | BInt int

datatype time_period_arg = TPNone | TPSeq "bound list"

datatype region_arg = RStr string | RList "string list"

fun py_str :: "bound \<Rightarrow> string" where
  "py_str (BStr s) = s"
| "py_str (BInt i) = str_int i"

text \<open>\<open>str(x)\<close> of a value that is \<open>None\<close> or a string.\<close>

fun str_opt :: "string option \<Rightarrow> string" where
  "str_opt None = ''None''"
| "str_opt (Some s) = s"

text \<open>
  \<open>**kwargs\<close> of \<open>calculate_diagnostic\<close>: for each keyword of
  \<open>calculate_basic_diagnostic\<close>, \<open>None\<close> when the caller did not supply it. Other keys
  are outside the model.
\<close>

record kwargs =
  kw_time_period :: "time_period_arg option"
  kw_season :: "string option option"
  kw_time_aggregation :: "string option option"
  kw_mask_ocean :: "bool option"
  kw_region :: "region_arg option"
  kw_overwrite :: "bool option"
  kw_regrid :: "bool option"

text \<open>The parameters of \<open>calculate_basic_diagnostic\<close> after \<open>outfile\<close>.\<close>

record params =
  p_time_period :: time_period_arg
  p_season :: "string option"
  p_time_aggregation :: "string option"
  p_mask_ocean :: bool
  p_region :: region_arg
  p_overwrite :: bool
  p_regrid :: bool

text \<open>Binding \<open>**kwargs\<close> to the parameters, with the defaults of the signature.\<close>

definition bind_kwargs :: "kwargs \<Rightarrow> params" where
  "bind_kwargs kw =
     \<lparr>p_time_period = (case kw_time_period kw of None \<Rightarrow> TPNone | Some t \<Rightarrow> t),
      p_season = (case kw_season kw of None \<Rightarrow> None | Some s \<Rightarrow> s),
      p_time_aggregation = (case kw_time_aggregation kw of None \<Rightarrow> None | Some a \<Rightarrow> a),
      p_mask_ocean = (case kw_mask_ocean kw of None \<Rightarrow> False | Some b \<Rightarrow> b),
      p_region = (case kw_region kw of None \<Rightarrow> RStr ''GLOBAL'' | Some r \<Rightarrow> r),
      p_overwrite = (case kw_overwrite kw of None \<Rightarrow> False | Some b \<Rightarrow> b),
      p_regrid = (case kw_regrid kw of None \<Rightarrow> False | Some b \<Rightarrow> b)\<rparr>"

subsection \<open>Files, log and the code called from outside the module\<close>

type_synonym dataset = "(string \<times> dataarray) list"

text \<open>The state the module reads and writes: the netCDF files by path, and the log.\<close>

record world =
  nc_files :: "string \<Rightarrow> dataset option"
  w_log :: "logrecord list"

text \<open>
  What the module calls but does not define, taken as parameters: the install directory,
  \<open>utils_python\<close>, \<open>cdo\<close>, label-based time slicing of \<open>xarray\<close>, the region catalogue and
  land mask of \<open>regionmask\<close> (the region code of the cell centred at a latitude and a
  longitude), the region corner files as \<open>numpy.loadtxt\<close> parses them, \<open>salem\<close>, the
  statistics of \<open>scipy\<close>, the square root of \<open>numpy\<close>, and array arithmetic of \<open>xarray\<close>.
\<close>

record env =
  region_dir :: string
  standardize_dimensions :: "dataarray \<Rightarrow> error + dataarray"
  cdo_remapbil :: "string \<Rightarrow> (string \<Rightarrow> dataset option) \<Rightarrow> string \<Rightarrow> error + string \<times> dataset"
  sel_time_slice :: "string \<Rightarrow> string \<Rightarrow> dataarray \<Rightarrow> error + dataarray"
  srex_abbrevs :: "string list"
  srex_map_keys :: "string list \<Rightarrow> error + nat list"
  srex_mask :: "real \<Rightarrow> real \<Rightarrow> nat option"
  land_110_mask :: "real \<Rightarrow> real \<Rightarrow> nat option"
  region_files :: "string \<Rightarrow> real list list option"
  salem_roi :: "(real \<times> real) \<times> (real \<times> real) \<Rightarrow> dataarray \<Rightarrow> error + dataarray"
  salem_subset_corners :: "(real \<times> real) \<times> (real \<times> real) \<Rightarrow> dataarray \<Rightarrow> error + dataarray"
  salem_subset_roi :: "bool list list \<Rightarrow> dataarray \<Rightarrow> error + dataarray"
  signal_detrend :: "real list \<Rightarrow> real list"
  linregress_slope :: "real list \<Rightarrow> real list \<Rightarrow> error + fval"
  pearsonr :: "fval list \<Rightarrow> fval list \<Rightarrow> error + fval \<times> fval"
  np_sqrt :: "real \<Rightarrow> real"
  xr_sub :: "dataarray \<Rightarrow> dataarray \<Rightarrow> dataarray"
  xr_add :: "dataarray \<Rightarrow> dataarray \<Rightarrow> dataarray"

definition MASK :: string where
  "MASK = ''land_sea_mask_regionsmask.nc''"

definition bindE :: "error + 'a \<Rightarrow> ('a \<Rightarrow> error + 'b) \<Rightarrow> error + 'b" where
  "bindE m f = (case m of Inl e \<Rightarrow> Inl e | Inr x \<Rightarrow> f x)"

text \<open>A call on every element in turn; the first exception ends it.\<close>

fun mapE :: "('a \<Rightarrow> error + 'b) \<Rightarrow> 'a list \<Rightarrow> error + 'b list" where
  "mapE f [] = Inr []"
| "mapE f (x # xs) =
     (case f x of
        Inl e \<Rightarrow> Inl e
      | Inr y \<Rightarrow> (case mapE f xs of Inl e \<Rightarrow> Inl e | Inr ys \<Rightarrow> Inr (y # ys)))"

text \<open>\<open>xr.open_dataset(path)[varn]\<close>.\<close>

definition open_dataset :: "world \<Rightarrow> string \<Rightarrow> error + dataset" where
  "open_dataset w path =
     (case nc_files w path of None \<Rightarrow> Inl (FileNotFoundError path) | Some ds \<Rightarrow> Inr ds)"

definition getitem :: "dataset \<Rightarrow> string \<Rightarrow> error + dataarray" where
  "getitem ds varn = (case map_of ds varn of None \<Rightarrow> Inl (KeyError varn) | Some da \<Rightarrow> Inr da)"

definition to_netcdf :: "dataset \<Rightarrow> string \<Rightarrow> world \<Rightarrow> world" where
  "to_netcdf ds path w = w\<lparr>nc_files := (nc_files w)(path \<mapsto> ds)\<rparr>"

definition logger :: "logrecord list \<Rightarrow> world \<Rightarrow> world" where
  "logger recs w = w\<lparr>w_log := w_log w @ recs\<rparr>"

subsection \<open>Grid, selection and masking\<close>

text \<open>\<open>np.arange(-88.75, 90., 2.5)\<close> and \<open>np.arange(-178.75, 180., 2.5)\<close>: 72 and 144
  values, each a multiple of 0.25 and so exact in binary floating point.\<close>

definition grid_lat :: "real list" where
  "grid_lat = map (\<lambda>i. - 88.75 + 2.5 * real i) [0..<72]"

definition grid_lon :: "real list" where
  "grid_lon = map (\<lambda>i. - 178.75 + 2.5 * real i) [0..<144]"

text \<open>The two \<open>assert\<close> statements on the coordinates.\<close>

definition check_grid :: "dataarray \<Rightarrow> error + dataarray" where
  "check_grid da =
     (if da_lat da \<noteq> grid_lat then Inl AssertionError
      else if da_lon da \<noteq> grid_lon then Inl AssertionError
      else Inr da)"

definition no_time_dim :: error where
  "no_time_dim = ValueError ''dimension time does not exist''"

text \<open>\<open>da.sel(time=slice(str(time_period[0]), str(time_period[1])))\<close> unless the period is
  \<open>None\<close>.\<close>

definition select_time_period :: "env \<Rightarrow> time_period_arg \<Rightarrow> dataarray \<Rightarrow> error + dataarray" where
  "select_time_period env time_period da =
     (case time_period of
        TPNone \<Rightarrow> Inr da
      | TPSeq bs \<Rightarrow>
          if length bs < 2 then Inl (IndexError ''tuple index out of range'')
          else sel_time_slice env (py_str (bs ! 0)) (py_str (bs ! 1)) da)"

text \<open>The elements of a list at the positions where the mask holds.\<close>

definition keep :: "bool list \<Rightarrow> 'a list \<Rightarrow> 'a list" where
  "keep sel xs = map snd (filter fst (zip sel xs))"

text \<open>\<open>da['time.season']\<close> of one time step.\<close>

definition season_of :: "timestamp \<Rightarrow> string" where
  "season_of t = [''DJF'', ''MAM'', ''JJA'', ''SON''] ! ((ts_month t div 3) mod 4)"

definition select_season :: "string option \<Rightarrow> dataarray \<Rightarrow> error + dataarray" where
  "select_season season da =
     (case season of
        None \<Rightarrow> Inr da
      | Some s \<Rightarrow>
          if s \<in> set [''JJA'', ''SON'', ''DJF'', ''MAM''] then
            (case da_axis da of
               Time ts \<Rightarrow>
                 (let sel = map (\<lambda>t. season_of t = s) ts
                  in Inr (da\<lparr>da_axis := Time (keep sel ts),
                              da_data := map (map (keep sel)) (da_data da)\<rparr>))
             | _ \<Rightarrow> Inl (KeyError ''time.season''))
          else if s = ''ANN'' then Inr da
          else Inl (NotImplementedError (''season='' @ s)))"

text \<open>\<open>da.where(mask)\<close> for a mask given per cell centre: the series of a cell outside the
  mask becomes NaN throughout.\<close>

definition where_cells :: "(real \<Rightarrow> real \<Rightarrow> bool) \<Rightarrow> dataarray \<Rightarrow> dataarray" where
  "where_cells inside da =
     da\<lparr>da_data :=
          map (\<lambda>(lat, row).
                 map (\<lambda>(lon, series). if inside lat lon then series else map (\<lambda>_. None) series)
                     (zip (da_lon da) row))
              (zip (da_lat da) (da_data da))\<rparr>"

definition mask_grid :: "(real \<Rightarrow> real \<Rightarrow> bool) \<Rightarrow> dataarray \<Rightarrow> bool list list" where
  "mask_grid inside da = map (\<lambda>lat. map (\<lambda>lon. inside lat lon) (da_lon da)) (da_lat da)"

text \<open>A region that is a string outside the SREX abbreviations: the corner file.\<close>

definition custom_region :: "env \<Rightarrow> string \<Rightarrow> dataarray \<Rightarrow> error + dataarray" where
  "custom_region env region da =
     (let regionfile = os_path_join (region_dir env) region @ ''.txt'' in
      case region_files env regionfile of
        None \<Rightarrow> Inl (ValueError (regionfile @ '' is not a valid regionfile''))
      | Some corners \<Rightarrow>
          if \<not> (length corners = 4 \<and> list_all (\<lambda>row. length row = 2) corners) then
            Inl (ValueError (''Wrong file content for regionfile '' @ regionfile
                             @ ''! Should contain four lines with corners like: lon, lat''))
          else
            (let lonmin = Min (set (map (\<lambda>row. row ! 0) corners));
                 latmin = Min (set (map (\<lambda>row. row ! 1) corners));
                 lonmax = Max (set (map (\<lambda>row. row ! 0) corners));
                 latmax = Max (set (map (\<lambda>row. row ! 1) corners))
             in if lonmax > 180 \<or> lonmin < - 180 \<or> latmax > 90 \<or> latmin < - 90 then
                  Inl (ValueError (''Wrong lat/lon value in '' @ regionfile))
                else
                  bindE (salem_roi env ((lonmin, latmin), (lonmax, latmax)) da)
                        (salem_subset_corners env ((lonmin, latmin), (lonmax, latmax)))))"

text \<open>A list of SREX regions: a cell is kept when exactly one of the keys is its region
  code (\<open>sum(masks) == 1\<close>).\<close>

definition srex_region :: "env \<Rightarrow> string list \<Rightarrow> dataarray \<Rightarrow> error + dataarray" where
  "srex_region env region da =
     bindE (srex_map_keys env region)
       (\<lambda>keys.
          let inside = (\<lambda>lat lon. length (filter (\<lambda>key. srex_mask env lat lon = Some key) keys) = 1)
          in salem_subset_roi env (mask_grid inside da) (where_cells inside da))"

text \<open>\<open>np.all(np.isnan(da.isel(time=0)))\<close>.\<close>

definition first_slice_all_nan :: "dataarray \<Rightarrow> error + bool" where
  "first_slice_all_nan da =
     (case da_axis da of
        Time ts \<Rightarrow>
          if ts = [] then Inl (IndexError ''index 0 is out of bounds for axis 0 with size 0'')
          else Inr (list_all (list_all (\<lambda>series. case series of [] \<Rightarrow> True | v # _ \<Rightarrow> isnan v))
                             (da_data da))
      | _ \<Rightarrow> Inl no_time_dim)"

text \<open>The two ways of masking a region: \<open>isinstance(region, str) and region not in
  regionmask.defined_regions.srex.abbrevs\<close>, or else.\<close>

definition mask_region :: "env \<Rightarrow> region_arg \<Rightarrow> dataarray \<Rightarrow> error + dataarray" where
  "mask_region env region da =
     (case region of
        RStr r \<Rightarrow>
          if r \<notin> set (srex_abbrevs env) then custom_region env r da
          else srex_region env [r] da
      | RList rs \<Rightarrow> srex_region env rs da)"

definition all_masked :: string where
  "all_masked = ''All grid points masked! Wrong masking settings?''"

text \<open>The block \<open>if region != 'GLOBAL'\<close>, with the check that ends it.\<close>

definition select_region ::
  "env \<Rightarrow> region_arg \<Rightarrow> dataarray \<Rightarrow> (error + dataarray) \<times> logrecord list" where
  "select_region env region da =
     (if region \<noteq> RStr ''GLOBAL'' then
        (case mask_region env region da of
           Inl e \<Rightarrow> (Inl e, [])
         | Inr da' \<Rightarrow>
             (case first_slice_all_nan da' of
                Inl e \<Rightarrow> (Inl e, [])
              | Inr True \<Rightarrow> (Inl (ValueError all_masked), [(ERROR, all_masked)])
              | Inr False \<Rightarrow> (Inr da', [])))
      else (Inr da, []))"

text \<open>The block \<open>if mask_ocean\<close>: the cells whose land-mask code is 0 are kept.\<close>

definition select_land :: "env \<Rightarrow> bool \<Rightarrow> dataarray \<Rightarrow> dataarray" where
  "select_land env mask_ocean da =
     (if mask_ocean then where_cells (\<lambda>lat lon. land_110_mask env lat lon = Some 0) da
      else da)"

text \<open>Lines 204 to 252: time period, season, region, ocean mask.\<close>

definition select :: "env \<Rightarrow> params \<Rightarrow> dataarray \<Rightarrow> (error + dataarray) \<times> logrecord list" where
  "select env p da =
     (case bindE (select_time_period env (p_time_period p) da) (select_season (p_season p)) of
        Inl e \<Rightarrow> (Inl e, [])
      | Inr da1 \<Rightarrow>
          (case select_region env (p_region p) da1 of
             (Inl e, l) \<Rightarrow> (Inl e, l)
           | (Inr da2, l) \<Rightarrow> (Inr (select_land env (p_mask_ocean p) da2), l)))"

subsection \<open>Reduction over time\<close>

definition mean :: "real list \<Rightarrow> real" where
  "mean xs = sum_list xs / real (length xs)"

text \<open>\<open>.mean(skipna=False)\<close> of the values of one cell: NaN when any is NaN, and NaN for
  no value at all.\<close>

definition mean_strict :: "fval list \<Rightarrow> fval" where
  "mean_strict vs =
     (if vs = [] \<or> list_ex isnan vs then None else Some (mean (map the vs)))"

text \<open>\<open>.mean()\<close> with the default \<open>skipna\<close>: the mean of the values that are not NaN.\<close>

definition mean_skipna :: "fval list \<Rightarrow> fval" where
  "mean_skipna vs =
     (let xs = map the (filter (\<lambda>v. \<not> isnan v) vs)
      in if xs = [] then None else Some (mean xs))"

text \<open>\<open>.std('time', skipna=False)\<close>.\<close>

definition std_strict :: "env \<Rightarrow> fval list \<Rightarrow> fval" where
  "std_strict env vs =
     (if vs = [] \<or> list_ex isnan vs then None
      else (let xs = map the vs; m = mean xs
            in Some (np_sqrt env (mean (map (\<lambda>x. (x - m)\<^sup>2) xs)))))"

text \<open>The values of a series whose time step has the given label.\<close>

definition group_of :: "('t \<Rightarrow> 'k) \<Rightarrow> 't list \<Rightarrow> 'k \<Rightarrow> fval list \<Rightarrow> fval list" where
  "group_of label ts k series = map snd (filter (\<lambda>(t, v). label t = k) (zip ts series))"

definition labels :: "('t \<Rightarrow> 'k::linorder) \<Rightarrow> 't list \<Rightarrow> 'k list" where
  "labels label ts = sort (remdups (map label ts))"

definition failed_to_group :: error where
  "failed_to_group =
     ValueError ''Failed to group data. Are you grouping by a variable that is all NaN?''"

text \<open>\<open>detrend(data)\<close> and \<open>trend(data)\<close> of one series.\<close>

definition detrend :: "env \<Rightarrow> fval list \<Rightarrow> fval list" where
  "detrend env data =
     (if list_ex isnan data then map (\<lambda>_. None) data
      else map Some (signal_detrend env (map the data)))"

definition trend :: "env \<Rightarrow> fval list \<Rightarrow> error + fval" where
  "trend env data =
     (if list_ex isnan data then Inr None
      else linregress_slope env (map real [0..<length data]) (map the data))"

text \<open>The \<open>CLIM\<close> branch: \<open>groupby('time.year').mean('time', skipna=False)\<close>, then
  \<open>mean('year', skipna=False)\<close>.\<close>

definition yearly_means :: "timestamp list \<Rightarrow> fval list \<Rightarrow> fval list" where
  "yearly_means ts series = map (\<lambda>y. mean_strict (group_of ts_year ts y series)) (labels ts_year ts)"

definition clim :: "timestamp list \<Rightarrow> fval list \<Rightarrow> fval" where
  "clim ts series = mean_strict (yearly_means ts series)"

definition monthly_means :: "timestamp list \<Rightarrow> fval list \<Rightarrow> fval list" where
  "monthly_means ts series =
     map (\<lambda>m. mean_skipna (group_of ts_month ts m series)) (labels ts_month ts)"

text \<open>The chain \<open>if time_aggregation == ...\<close>. In the last branch the exception is built and
  dropped: nothing is raised.\<close>

definition aggregate :: "env \<Rightarrow> string option \<Rightarrow> dataarray \<Rightarrow> error + dataarray" where
  "aggregate env time_aggregation da =
     (if time_aggregation = Some ''CLIM'' then
        (case da_axis da of
           Time ts \<Rightarrow>
             if ts = [] then Inl failed_to_group
             else Inr (da\<lparr>da_axis := Reduced,
                         da_data := map (map (\<lambda>series. [clim ts series])) (da_data da)\<rparr>)
         | _ \<Rightarrow> Inl no_time_dim)
      else if time_aggregation = Some ''STD'' then
        (case da_axis da of
           Time ts \<Rightarrow>
             Inr (da\<lparr>da_axis := Reduced,
                    da_data := map (map (\<lambda>series. [std_strict env (detrend env series)])) (da_data da)\<rparr>)
         | _ \<Rightarrow> Inl no_time_dim)
      else if time_aggregation = Some ''TREND'' then
        (case da_axis da of
           Time ts \<Rightarrow>
             bindE (mapE (mapE (\<lambda>series. bindE (trend env series) (\<lambda>v. Inr [v]))) (da_data da))
               (\<lambda>cells. Inr (da\<lparr>da_axis := Reduced, da_data := cells\<rparr>))
         | _ \<Rightarrow> Inl no_time_dim)
      else if time_aggregation = Some ''CYC'' then
        (case da_axis da of
           Time ts \<Rightarrow>
             if ts = [] then Inl failed_to_group
             else Inr (da\<lparr>da_axis := Month (labels ts_month ts),
                         da_data := map (map (monthly_means ts)) (da_data da)\<rparr>)
         | _ \<Rightarrow> Inl no_time_dim)
      else if time_aggregation = None \<or> time_aggregation = Some ''CORR'' then Inr da
      else Inr da)"

text \<open>\<open>attrs['units'] = '{} year**-1'.format(attrs['units'])\<close> in the \<open>TREND\<close> branch.\<close>

definition aggregate_units :: "string option \<Rightarrow> string option \<Rightarrow> error + string option" where
  "aggregate_units time_aggregation units =
     (if time_aggregation = Some ''TREND'' then
        (case units of
           None \<Rightarrow> Inl (KeyError ''units'')
         | Some u \<Rightarrow> Inr (Some (u @ '' year**-1'')))
      else Inr units)"

subsection \<open>The basic diagnostic\<close>

text \<open>Lines 194 to 198: the optional regridding into a temporary file, and the read.\<close>

definition read_input ::
  "env \<Rightarrow> world \<Rightarrow> string \<Rightarrow> string \<Rightarrow> bool \<Rightarrow> (error + dataarray) \<times> world" where
  "read_input env w infile varn regrid =
     (case (if regrid then
              (case cdo_remapbil env (os_path_join (region_dir env) MASK) (nc_files w) infile of
                 Inl e \<Rightarrow> Inl e
               | Inr (tmp, ds) \<Rightarrow> Inr (tmp, to_netcdf ds tmp w))
            else Inr (infile, w)) of
        Inl e \<Rightarrow> (Inl e, w)
      | Inr (infile', w') \<Rightarrow> (bindE (open_dataset w' infile') (\<lambda>ds. getitem ds varn), w'))"

text \<open>
  Lines 199 to 287, from the field read to the dataset to store, with the records logged
  on the way. \<open>standardize_units\<close> returning \<open>None\<close> makes \<open>da.attrs\<close> raise.
\<close>

definition diagnose ::
  "env \<Rightarrow> string \<Rightarrow> params \<Rightarrow> dataarray \<Rightarrow> (error + dataset) \<times> logrecord list" where
  "diagnose env varn p da0 =
     (let enc = da_encoding da0 in
      case bindE (standardize_dimensions env da0) check_grid of
        Inl e \<Rightarrow> (Inl e, [])
      | Inr da1 \<Rightarrow>
          (case select env p da1 of
             (Inl e, l1) \<Rightarrow> (Inl e, l1)
           | (Inr da2, l1) \<Rightarrow>
               (case standardize_units da2 varn of
                  (Inl e, l2) \<Rightarrow> (Inl e, l1 @ l2)
                | (Inr None, l2) \<Rightarrow>
                    (Inl (AttributeError ''NoneType object has no attribute attrs''), l1 @ l2)
                | (Inr (Some da3), l2) \<Rightarrow>
                    (case aggregate env (p_time_aggregation p) da3 of
                       Inl e \<Rightarrow> (Inl e, l1 @ l2)
                     | Inr da4 \<Rightarrow>
                         (case aggregate_units (p_time_aggregation p) (da_units da3) of
                            Inl e \<Rightarrow> (Inl e, l1 @ l2)
                          | Inr units \<Rightarrow>
                              (Inr [(varn, da4\<lparr>da_units := units, da_attrs := da_attrs da3,
                                                da_encoding := enc\<rparr>)],
                               l1 @ l2))))))"

definition os_path_isfile :: "world \<Rightarrow> string \<Rightarrow> bool" where
  "os_path_isfile w path = (nc_files w path \<noteq> None)"

text \<open>\<open>calculate_basic_diagnostic(infile, varn, outfile, **params)\<close>: what it returns or
  raises, and the files and log it leaves.\<close>

definition calculate_basic_diagnostic ::
  "env \<Rightarrow> world \<Rightarrow> string \<Rightarrow> string \<Rightarrow> string option \<Rightarrow> params \<Rightarrow> (error + dataset) \<times> world" where
  "calculate_basic_diagnostic env w infile varn outfile p =
     (if \<not> p_overwrite p \<and> outfile \<noteq> None \<and> os_path_isfile w (the outfile) then
        (let w' = logger [(DEBUG, ''Diagnostic already exists & overwrite=False, skipping.'')] w
         in (open_dataset w' (the outfile), w'))
      else
        (case read_input env w infile varn (p_regrid p) of
           (Inl e, w1) \<Rightarrow> (Inl e, w1)
         | (Inr da, w1) \<Rightarrow>
             (case diagnose env varn p da of
                (Inl e, l) \<Rightarrow> (Inl e, logger l w1)
              | (Inr ds, l) \<Rightarrow>
                  (Inr ds,
                   (case outfile of
                      None \<Rightarrow> logger l w1
                    | Some out \<Rightarrow> to_netcdf ds out (logger l w1))))))"

subsection \<open>Derived diagnostics\<close>

text \<open>
  \<open>get_outfile(infile=infile, **kwargs)\<close> inside \<open>calculate_diagnostic\<close>. The lookup
  \<open>kwargs['region']\<close> comes first; the format string then reads \<open>infile\<close>,
  \<open>time_period[0]\<close>, \<open>time_period[1]\<close>, \<open>season\<close>, \<open>time_aggregation\<close> and \<open>region\<close>
  in this order, and the first one that fails raises.
\<close>

text \<open>\<open>kwargs['region']\<close> as the format string receives it: a list is joined with dashes.\<close>

fun region_text :: "region_arg \<Rightarrow> string" where
  "region_text (RList rs) = str_join ''-'' rs"
| "region_text (RStr r) = r"

definition get_outfile :: "string \<Rightarrow> string \<Rightarrow> kwargs \<Rightarrow> error + string" where
  "get_outfile base_path infile kw =
     (let infile' = str_replace ''.nc'' [] (os_path_basename infile) in
      case kw_region kw of
        None \<Rightarrow> Inl (KeyError ''region'')
      | Some region \<Rightarrow>
          (let region' = region_text region in
           case kw_time_period kw of
             None \<Rightarrow> Inl (KeyError ''time_period'')
           | Some TPNone \<Rightarrow> Inl (TypeError ''NoneType object is not subscriptable'')
           | Some (TPSeq bs) \<Rightarrow>
               if length bs < 2 then Inl (IndexError ''tuple index out of range'')
               else
                 (case kw_season kw of
                    None \<Rightarrow> Inl (KeyError ''season'')
                  | Some season \<Rightarrow>
                      (case kw_time_aggregation kw of
                         None \<Rightarrow> Inl (KeyError ''time_aggregation'')
                       | Some time_aggregation \<Rightarrow>
                           Inr (os_path_join base_path
                                  (infile' @ ''_'' @ py_str (bs ! 0) @ ''-'' @ py_str (bs ! 1)
                                   @ ''_'' @ str_opt season @ ''_'' @ str_opt time_aggregation
                                   @ ''_'' @ region' @ ''.nc''))))))"

text \<open>\<open>_corr(arr1, arr2)\<close> on the series of one cell.\<close>

definition corr :: "env \<Rightarrow> fval list \<Rightarrow> fval list \<Rightarrow> error + fval" where
  "corr env arr1 arr2 =
     (case pearsonr env arr1 arr2 of Inl e \<Rightarrow> Inl e | Inr (r, prob) \<Rightarrow> Inr r)"

text \<open>
  \<open>xr.apply_ufunc(_corr, a, b, input_core_dims=[['time'], ['time']])\<close>: both fields need
  a time dimension and, the default join being exact, equal coordinates; the result has no
  time dimension and no attribute.
\<close>

definition apply_corr :: "env \<Rightarrow> dataarray \<Rightarrow> dataarray \<Rightarrow> error + dataarray" where
  "apply_corr env a b =
     (case (da_axis a, da_axis b) of
        (Time ts, Time ts') \<Rightarrow>
          if ts = ts' \<and> da_lat a = da_lat b \<and> da_lon a = da_lon b then
            bindE (mapE (\<lambda>(row, row').
                           mapE (\<lambda>(arr1, arr2). bindE (corr env arr1 arr2) (\<lambda>v. Inr [v]))
                                (zip row row'))
                        (zip (da_data a) (da_data b)))
              (\<lambda>cells. Inr \<lparr>da_axis = Reduced, da_lat = da_lat a, da_lon = da_lon a,
                              da_data = cells, da_units = None, da_attrs = [],
                              da_encoding = []\<rparr>)
          else Inl (ValueError ''indexes along dimension are not equal'')
      | _ \<Rightarrow> Inl no_time_dim)"

text \<open>The basic variables of a derived diagnostic: a tuple or a list of names.\<close>

datatype varns_arg = VTuple "string list" | VList "string list"

fun names :: "varns_arg \<Rightarrow> string list" where
  "names (VTuple vs) = vs"
| "names (VList vs) = vs"

text \<open>\<open>varns[i]\<close>.\<close>

definition item :: "varns_arg \<Rightarrow> nat \<Rightarrow> error + string" where
  "item varns i =
     (if i < length (names varns) then Inr (names varns ! i)
      else Inl (IndexError ''index out of range''))"

definition open_variable :: "world \<Rightarrow> string \<Rightarrow> string \<Rightarrow> error + dataarray" where
  "open_variable w path varn = bindE (open_dataset w path) (\<lambda>ds. getitem ds varn)"

text \<open>\<open>calculate_net_radiation(infile, varns, outname, diagn)\<close>. The sum of differences loses
  the attributes of its operands; the function then sets four of them.\<close>

definition calculate_net_radiation ::
  "env \<Rightarrow> world \<Rightarrow> string \<Rightarrow> varns_arg \<Rightarrow> string \<Rightarrow> string \<Rightarrow> (error + unit) \<times> world" where
  "calculate_net_radiation env w infile varns outname diagn =
     (if varns \<noteq> VTuple [''rlds'', ''rlus'', ''rsds'', ''rsus''] then (Inl AssertionError, w)
      else
        (case (let vs = names varns in
               bindE (open_variable w infile (vs ! 0)) (\<lambda>da1.
               bindE (open_variable w (str_replace (vs ! 0) (vs ! 1) infile) (vs ! 1)) (\<lambda>da2.
               bindE (open_variable w (str_replace (vs ! 0) (vs ! 2) infile) (vs ! 2)) (\<lambda>da3.
               bindE (open_variable w (str_replace (vs ! 0) (vs ! 3) infile) (vs ! 3)) (\<lambda>da4.
                case da_units da1 of
                  None \<Rightarrow> Inl (AttributeError ''DataArray object has no attribute units'')
                | Some units \<Rightarrow>
                    Inr ((xr_add env (xr_sub env da1 da2) (xr_sub env da3 da4))
                          \<lparr>da_units := Some units,
                           da_attrs :=
                             [(''_FillValue'',
                               (case map_of (da_attrs da1) ''_FillValue'' of
                                  None \<Rightarrow> ANum (10 ^ 20)
                                | Some v \<Rightarrow> v)),
                              (''long_name'', AStr ''Surface Downwelling Net Radiation''),
                              (''standard_name'', AStr ''surface_downwelling_net_flux_in_air'')]\<rparr>)))))) of
           Inl e \<Rightarrow> (Inl e, w)
         | Inr da \<Rightarrow> (Inr (), to_netcdf [(diagn, da)] outname w)))"

text \<open>The first argument \<open>diagn\<close>: a string, a dictionary (its items), or anything else.\<close>

datatype diagn_arg = DStr string | DDict "(string \<times> varns_arg) list" | DOther

text \<open>The \<open>CORR\<close> branch of \<open>calculate_diagnostic\<close>, after the two assertions.\<close>

definition correlate ::
  "env \<Rightarrow> world \<Rightarrow> string \<Rightarrow> string \<Rightarrow> string \<Rightarrow> string \<Rightarrow> string \<Rightarrow> kwargs
   \<Rightarrow> (error + dataset option) \<times> world" where
  "correlate env w infile diagn varn0 varn1 base_path kw =
     (case get_outfile base_path infile kw of
        Inl e \<Rightarrow> (Inl e, w)
      | Inr outfile1 \<Rightarrow>
          (case calculate_basic_diagnostic env w infile varn0 (Some outfile1) (bind_kwargs kw) of
             (Inl e, w1) \<Rightarrow> (Inl e, w1)
           | (Inr ds1, w1) \<Rightarrow>
               (let (path, fn) = os_path_split infile;
                    fn' = str_replace (varn0 @ ''_'') (varn1 @ ''_'') fn;
                    path' = str_replace (''/'' @ varn0 @ ''/'') (''/'' @ varn1 @ ''/'') (path @ ''/'');
                    infile2 = os_path_join path' fn'
                in case get_outfile base_path infile2 kw of
                     Inl e \<Rightarrow> (Inl e, w1)
                   | Inr outfile2 \<Rightarrow>
                       (case calculate_basic_diagnostic env w1 infile2 varn1 (Some outfile2)
                               (bind_kwargs kw) of
                          (Inl e, w2) \<Rightarrow> (Inl e, w2)
                        | (Inr ds2, w2) \<Rightarrow>
                            (case bindE (getitem ds1 varn0) (\<lambda>a.
                                  bindE (getitem ds2 varn1) (\<lambda>b. apply_corr env a b)) of
                               Inl e \<Rightarrow> (Inl e, w2)
                             | Inr da \<Rightarrow>
                                 (let outfile3 = str_replace (''/'' @ varn0 @ ''_'')
                                                   (''/'' @ diagn @ ''_'') outfile1;
                                      ds3 = [(diagn, da\<lparr>da_units := Some ''1'', da_attrs := []\<rparr>)]
                                  in (Inr (Some ds3), to_netcdf ds3 outfile3 w2)))))))"

text \<open>
  \<open>calculate_diagnostic(infile, diagn, base_path, **kwargs)\<close>. \<open>Inr None\<close> is the value
  \<open>None\<close> the function returns when it runs off its end: there is no \<open>else\<close> after the
  \<open>rnet\<close> and \<open>CORR\<close> branches, nor after the test for a dictionary.
\<close>

definition calculate_diagnostic ::
  "env \<Rightarrow> world \<Rightarrow> string \<Rightarrow> diagn_arg \<Rightarrow> string \<Rightarrow> kwargs \<Rightarrow> (error + dataset option) \<times> world" where
  "calculate_diagnostic env w infile diagn base_path kw =
     (case diagn of
        DStr d \<Rightarrow>
          (case get_outfile base_path infile kw of
             Inl e \<Rightarrow> (Inl e, w)
           | Inr outfile \<Rightarrow>
               (case calculate_basic_diagnostic env w infile d (Some outfile) (bind_kwargs kw) of
                  (Inl e, w') \<Rightarrow> (Inl e, w')
                | (Inr ds, w') \<Rightarrow> (Inr (Some ds), w')))
      | DDict items \<Rightarrow>
          (case items of
             [(key, varns)] \<Rightarrow>
               if key = ''rnet'' then
                 (case item varns 0 of
                    Inl e \<Rightarrow> (Inl e, w)
                  | Inr varn0 \<Rightarrow>
                      (let tmpfile = os_path_join base_path
                                       (str_replace varn0 key (os_path_basename infile))
                       in case calculate_net_radiation env w infile varns tmpfile key of
                            (Inl e, w1) \<Rightarrow> (Inl e, w1)
                          | (Inr u, w1) \<Rightarrow>
                              (case get_outfile base_path tmpfile kw of
                                 Inl e \<Rightarrow> (Inl e, w1)
                               | Inr outfile \<Rightarrow>
                                   (case calculate_basic_diagnostic env w1 tmpfile key (Some outfile)
                                           (bind_kwargs kw) of
                                      (Inl e, w2) \<Rightarrow> (Inl e, w2)
                                    | (Inr ds, w2) \<Rightarrow> (Inr (Some ds), w2)))))
               else
                 (case kw_time_aggregation kw of
                    None \<Rightarrow> (Inl (KeyError ''time_aggregation''), w)
                  | Some time_aggregation \<Rightarrow>
                      if time_aggregation = Some ''CORR'' then
                        (if length (names varns) \<noteq> 2 then (Inl AssertionError, w)
                         else if names varns ! 0 = names varns ! 1 then (Inl AssertionError, w)
                         else correlate env w infile key (names varns ! 0) (names varns ! 1)
                                base_path kw)
                      else (Inr None, w))
           | _ \<Rightarrow> (Inl AssertionError, w))
      | DOther \<Rightarrow> (Inr None, w))"

subsection \<open>The order of stages as stated\<close>

text \<open>
  For comparison with \<open>diagnose\<close> only: the same stages in the order validation, unit
  normalisation, selection, reduction.
\<close>

definition diagnose_as_claimed ::
  "env \<Rightarrow> string \<Rightarrow> params \<Rightarrow> dataarray \<Rightarrow> (error + dataset) \<times> logrecord list" where
  "diagnose_as_claimed env varn p da0 =
     (let enc = da_encoding da0 in
      case bindE (standardize_dimensions env da0) check_grid of
        Inl e \<Rightarrow> (Inl e, [])
      | Inr da1 \<Rightarrow>
          (case standardize_units da1 varn of
             (Inl e, l1) \<Rightarrow> (Inl e, l1)
           | (Inr None, l1) \<Rightarrow>
               (Inl (AttributeError ''NoneType object has no attribute attrs''), l1)
           | (Inr (Some da2), l1) \<Rightarrow>
               (case select env p da2 of
                  (Inl e, l2) \<Rightarrow> (Inl e, l1 @ l2)
                | (Inr da3, l2) \<Rightarrow>
                    (case aggregate env (p_time_aggregation p) da3 of
                       Inl e \<Rightarrow> (Inl e, l1 @ l2)
                     | Inr da4 \<Rightarrow>
                         (case aggregate_units (p_time_aggregation p) (da_units da3) of
                            Inl e \<Rightarrow> (Inl e, l1 @ l2)
                          | Inr units \<Rightarrow>
                              (Inr [(varn, da4\<lparr>da_units := units, da_attrs := da_attrs da3,
                                                da_encoding := enc\<rparr>)],
                               l1 @ l2))))))"

section \<open>Example inputs\<close>

text \<open>
  A concrete instance of the outside code: no regridding, identity time slicing and salem
  cropping, two SREX regions of which \<open>CEU\<close> (key 12) covers the northern cells and \<open>MED\<close>
  (key 13) none, a land mask without land, detrending that leaves the series, statistics
  that return NaN on a series with NaN and 0 otherwise, and the identity standing in for the
  square root.
\<close>

definition example_env :: env where
  "example_env =
     \<lparr>region_dir = ''/climwip/functions/../cdo_data/'',
      standardize_dimensions = Inr,
      cdo_remapbil = (\<lambda>grid files infile. Inl (FileNotFoundError infile)),
      sel_time_slice = (\<lambda>start stop da. Inr da),
      srex_abbrevs = [''CEU'', ''MED''],
      srex_map_keys =
        mapE (\<lambda>r. if r = ''CEU'' then Inr 12 else if r = ''MED'' then Inr 13
                   else Inl (KeyError r)),
      srex_mask = (\<lambda>lat lon. if 0 < lat then Some 12 else None),
      land_110_mask = (\<lambda>lat lon. None),
      region_files = (\<lambda>path. None),
      salem_roi = (\<lambda>corners. Inr),
      salem_subset_corners = (\<lambda>corners. Inr),
      salem_subset_roi = (\<lambda>roi. Inr),
      signal_detrend = (\<lambda>xs. xs),
      linregress_slope = (\<lambda>xs ys. Inr (Some 0)),
      pearsonr = (\<lambda>a b. if list_ex isnan a \<or> list_ex isnan b then Inr (None, None)
                         else Inr (Some 0, Some 1)),
      np_sqrt = (\<lambda>x. x),
      xr_sub = (\<lambda>a b. a),
      xr_add = (\<lambda>a b. a)\<rparr>"

text \<open>Three monthly time steps, two in 2000 and one in 2001.\<close>

definition example_times :: "timestamp list" where
  "example_times =
     [\<lparr>ts_year = 2000, ts_month = 6, ts_day = 16\<rparr>,
      \<lparr>ts_year = 2000, ts_month = 7, ts_day = 16\<rparr>,
      \<lparr>ts_year = 2001, ts_month = 6, ts_day = 16\<rparr>]"

text \<open>A series in kelvin: 1, 2 and 6 degrees Celsius.\<close>

definition example_kelvin :: "fval list" where
  "example_kelvin = [Some 274.15, Some 275.15, Some 279.15]"

text \<open>A field on the fixed grid with the same series in every cell.\<close>

definition uniform_field :: "string option \<Rightarrow> fval list \<Rightarrow> dataarray" where
  "uniform_field units series =
     \<lparr>da_axis = Time example_times, da_lat = grid_lat, da_lon = grid_lon,
      da_data = replicate 72 (replicate 144 series),
      da_units = units, da_attrs = [], da_encoding = []\<rparr>"

text \<open>Files: one input per path given, and an empty log.\<close>

definition example_world :: "(string \<times> dataset) list \<Rightarrow> world" where
  "example_world files = \<lparr>nc_files = map_of files, w_log = []\<rparr>"

definition example_params :: params where
  "example_params =
     \<lparr>p_time_period = TPNone, p_season = None, p_time_aggregation = None,
      p_mask_ocean = False, p_region = RStr ''GLOBAL'', p_overwrite = False,
      p_regrid = False\<rparr>"

definition example_kwargs :: kwargs where
  "example_kwargs =
     \<lparr>kw_time_period = Some (TPSeq [BInt 2000, BInt 2001]), kw_season = Some (Some ''JJA''),
      kw_time_aggregation = Some (Some ''CLIM''), kw_mask_ocean = None,
      kw_region = Some (RStr ''GLOBAL''), kw_overwrite = None, kw_regrid = None\<rparr>"

definition example_input :: "string option \<Rightarrow> fval list \<Rightarrow> world" where
  "example_input units series =
     example_world [(''/data/tas/tas_mon_obs.nc'', [(''tas'', uniform_field units series)])]"

text \<open>The same outside code with a land mask that has land: every cell south of the equator.\<close>

definition example_env_land :: env where
  "example_env_land = example_env\<lparr>land_110_mask := (\<lambda>lat lon. if lat < 0 then Some 0 else None)\<rparr>"





section \<open>Facts for evaluation\<close>

lemmas run_defs =
  calculate_basic_diagnostic_def os_path_isfile_def example_world_def example_input_def
  example_params_def read_input_def open_dataset_def getitem_def bindE_def diagnose_def
  example_env_def check_grid_def uniform_field_def select_def select_time_period_def
  select_season_def select_region_def select_land_def standardize_units_def aggregate_def
  aggregate_units_def logger_def to_netcdf_def example_kelvin_def

section \<open>Unit normalisation: pressure\<close>

lemma lower_char_not_upper_P: "lower_char c \<noteq> CHR ''P''"
proof (cases "map_of (zip ''ABCDEFGHIJKLMNOPQRSTUVWXYZ'' ''abcdefghijklmnopqrstuvwxyz'') c")
  case None
  then have "c \<noteq> CHR ''P''" by auto
  with None show ?thesis by (simp add: lower_char_def)
next
  case (Some d)
  then have "(c, d) \<in> set (zip ''ABCDEFGHIJKLMNOPQRSTUVWXYZ'' ''abcdefghijklmnopqrstuvwxyz'')"
    by (rule map_of_SomeD)
  then have "d \<noteq> CHR ''P''" by auto
  with Some show ?thesis by (simp add: lower_char_def)
qed

lemma lower_never_hPa: "lower u \<noteq> ''hPa''"
proof
  assume "lower u = ''hPa''"
  then have "CHR ''P'' \<in> set (map lower_char u)" by (simp add: lower_def)
  then obtain c where "lower_char c = CHR ''P''" by auto
  then show False by (simp add: lower_char_not_upper_P)
qed

text \<open>
  C3. A \<open>psl\<close> field declared in \<open>hPa\<close> is not converted: the branch that would multiply by 100
  compares the lower-cased unit with the mixed-case text \<open>hPa\<close>, which no lower-cased text
  equals, so the call raises \<open>ValueError\<close> naming the unit and the variable.
\<close>

theorem standardize_units_psl_hPa_raises:
  "standardize_units
     \<lparr>da_axis = Time [\<lparr>ts_year = 2000, ts_month = 1, ts_day = 16\<rparr>],
      da_lat = [1.25], da_lon = [1.25], da_data = [[[Some 1013.25]]],
      da_units = Some ''hPa'', da_attrs = [], da_encoding = []\<rparr> ''psl''
   = (Inl (ValueError ''Unit hPa not covered for psl''), [])"
  by (simp add: standardize_units_def unit_not_covered_def lower_def lower_char_def)


section \<open>Unit normalisation: no declared unit\<close>

lemma standardize_units_no_unit:
  "da_units da = None \<Longrightarrow>
   standardize_units da varn = (Inr None, [(WARNING, ''units attribute not found for '' @ varn)])"
  by (simp add: standardize_units_def)

text \<open>
  C2. For a field without a \<open>units\<close> attribute the normaliser logs a warning and returns
  \<open>None\<close>; the pipeline then reads \<open>da.attrs\<close> of that \<open>None\<close> and ends in an
  \<open>AttributeError\<close>: the degree-Celsius field below, read from its file with no unit
  declared, gives no diagnostic and no output file, only the warning in the log.
\<close>

theorem calculate_basic_diagnostic_no_unit_crashes:
  "calculate_basic_diagnostic example_env (example_input None [Some 1, Some 2, Some 6])
     ''/data/tas/tas_mon_obs.nc'' ''tas'' (Some ''/out/tas_mon_obs.nc'') example_params
   = (Inl (AttributeError ''NoneType object has no attribute attrs''),
      logger [(WARNING, ''units attribute not found for tas'')]
        (example_input None [Some 1, Some 2, Some 6]))"
  by (simp add: run_defs)

section \<open>Unsupported aggregation\<close>

lemma aggregate_unknown_passes:
  "time_aggregation \<notin> set [Some ''CLIM'', Some ''STD'', Some ''TREND'', Some ''CYC''] \<Longrightarrow>
   aggregate env time_aggregation da = Inr da"
  by (simp add: aggregate_def)

text \<open>
  C1. With \<open>time_aggregation='MEAN'\<close>, a value outside the supported ones, nothing is
  raised: the field is stored and returned with its time axis unreduced.
\<close>

theorem calculate_basic_diagnostic_unknown_aggregation_persists:
  "calculate_basic_diagnostic example_env (example_input (Some ''degC'') [Some 1, Some 2, Some 6])
     ''/data/tas/tas_mon_obs.nc'' ''tas'' (Some ''/out/tas_mon_obs.nc'')
     (example_params\<lparr>p_time_aggregation := Some ''MEAN''\<rparr>)
   = (Inr [(''tas'', uniform_field (Some ''degC'') [Some 1, Some 2, Some 6])],
      to_netcdf [(''tas'', uniform_field (Some ''degC'') [Some 1, Some 2, Some 6])]
        ''/out/tas_mon_obs.nc'' (example_input (Some ''degC'') [Some 1, Some 2, Some 6]))"
  by (simp add: run_defs)

section \<open>Derivations the dispatcher does not know\<close>


text \<open>
  C4. A derivation named \<open>tasclt\<close> of two variables with \<open>time_aggregation='CLIM'\<close> is
  neither the net radiation nor a correlation: the dispatcher raises nothing, returns
  \<open>None\<close> and leaves the files and the log as they were.
\<close>

theorem calculate_diagnostic_unknown_derivation_returns_none:
  "calculate_diagnostic example_env (example_input (Some ''degC'') [Some 1, Some 2, Some 6])
     ''/data/tas/tas_mon_obs.nc'' (DDict [(''tasclt'', VList [''tas'', ''clt''])]) ''/out''
     example_kwargs
   = (Inr None, example_input (Some ''degC'') [Some 1, Some 2, Some 6])"
  by (simp add: calculate_diagnostic_def example_kwargs_def)

section \<open>Climatology\<close>

lemma set_labels: "set (labels label ts) = label ` set ts"
  by (simp add: labels_def)

lemma labels_nonempty: "ts \<noteq> [] \<Longrightarrow> labels label ts \<noteq> []"
proof -
  assume "ts \<noteq> []"
  then have "set (labels label ts) \<noteq> {}" by (simp add: set_labels)
  then show ?thesis by auto
qed

lemma set_group: "set (group_of label ts k series) \<subseteq> set series"
  by (auto simp: group_of_def dest: set_zip_rightD)

lemma group_member:
  "(t, v) \<in> set (zip ts series) \<Longrightarrow> v \<in> set (group_of label ts (label t) series)"
  by (force simp: group_of_def)

lemma group_nonempty:
  assumes "length series = length ts" "k \<in> set (labels label ts)"
  shows "group_of label ts k series \<noteq> []"
proof -
  from assms(2) obtain t where t: "t \<in> set ts" "label t = k" by (auto simp: set_labels)
  with assms(1) obtain v where "(t, v) \<in> set (zip ts series)"
    by (metis in_set_impl_in_set_zip1)
  then have "v \<in> set (group_of label ts (label t) series)" by (rule group_member)
  with t show ?thesis by auto
qed

lemma mean_strict_None: "None \<in> set vs \<Longrightarrow> mean_strict vs = None"
  by (auto simp: mean_strict_def list_ex_iff isnan_def)

lemma mean_strict_Some:
  "vs \<noteq> [] \<Longrightarrow> \<not> list_ex isnan vs \<Longrightarrow> mean_strict vs = Some (mean (map the vs))"
  by (simp add: mean_strict_def)

lemma mean_strict_map_Some: "xs \<noteq> [] \<Longrightarrow> mean_strict (map Some xs) = Some (mean xs)"
  by (simp add: mean_strict_def list_ex_iff isnan_def comp_def)

lemma yearly_means_Some:
  assumes "length series = length ts" "\<not> list_ex isnan series"
  shows "yearly_means ts series
         = map Some (map (\<lambda>y. mean (map the (group_of ts_year ts y series))) (labels ts_year ts))"
proof -
  have "mean_strict (group_of ts_year ts y series) = Some (mean (map the (group_of ts_year ts y series)))"
    if "y \<in> set (labels ts_year ts)" for y
  proof (rule mean_strict_Some)
    show "group_of ts_year ts y series \<noteq> []" using assms(1) that by (rule group_nonempty)
    show "\<not> list_ex isnan (group_of ts_year ts y series)"
      using assms(2) set_group [of ts_year ts y series] by (auto simp: list_ex_iff)
  qed
  then show ?thesis by (simp add: yearly_means_def)
qed

lemma clim_no_missing:
  assumes "length series = length ts" "ts \<noteq> []" "\<not> list_ex isnan series"
  shows "clim ts series
         = Some (mean (map (\<lambda>y. mean (map the (group_of ts_year ts y series))) (labels ts_year ts)))"
proof -
  let ?xs = "map (\<lambda>y. mean (map the (group_of ts_year ts y series))) (labels ts_year ts)"
  have eq: "yearly_means ts series = map Some ?xs"
    using assms(1,3) by (rule yearly_means_Some)
  have "?xs \<noteq> []" using assms(2) by (simp add: labels_nonempty)
  then have "mean_strict (map Some ?xs) = Some (mean ?xs)" by (rule mean_strict_map_Some)
  then show ?thesis unfolding clim_def eq .
qed

lemma clim_year_missing:
  assumes "y \<in> set (labels ts_year ts)" "mean_strict (group_of ts_year ts y series) = None"
  shows "clim ts series = None"
proof -
  have "None \<in> set (yearly_means ts series)"
    using assms by (force simp: yearly_means_def)
  then show ?thesis by (simp add: clim_def mean_strict_None)
qed

lemma clim_step_missing:
  assumes "(t, None) \<in> set (zip ts series)"
  shows "mean_strict (group_of ts_year ts (ts_year t) series) = None" "clim ts series = None"
proof -
  show m: "mean_strict (group_of ts_year ts (ts_year t) series) = None"
    using assms by (intro mean_strict_None group_member)
  have "t \<in> set ts" using assms by (rule set_zip_leftD)
  then have "ts_year t \<in> set (labels ts_year ts)" by (simp add: set_labels)
  then show "clim ts series = None" using m by (rule clim_year_missing)
qed

text \<open>
  C8. The \<open>CLIM\<close> branch replaces the series of every cell by \<open>clim\<close> of it, which is the
  strict mean over the calendar years of the strict mean of the year's time steps. Without
  a missing value it is the mean of the per-year means. A missing time step makes the mean
  of its year missing, and a missing year makes the result missing. It is not the flat
  mean: for the values 1 and 2 in 2000 and 6 in 2001 the two differ.
\<close>

theorem clim_is_mean_of_yearly_means:
  "(da_axis da = Time ts \<and> ts \<noteq> [] \<longrightarrow>
      aggregate env (Some ''CLIM'') da
      = Inr (da\<lparr>da_axis := Reduced,
                da_data := map (map (\<lambda>series. [clim ts series])) (da_data da)\<rparr>))
   \<and> clim ts series
     = mean_strict (map (\<lambda>y. mean_strict (group_of ts_year ts y series)) (labels ts_year ts))
   \<and> (length series = length ts \<and> ts \<noteq> [] \<and> \<not> list_ex isnan series \<longrightarrow>
        clim ts series
        = Some (mean (map (\<lambda>y. mean (map the (group_of ts_year ts y series)))
                          (labels ts_year ts))))
   \<and> ((t, None) \<in> set (zip ts series) \<longrightarrow>
        mean_strict (group_of ts_year ts (ts_year t) series) = None \<and> clim ts series = None)
   \<and> (y \<in> set (labels ts_year ts) \<and> mean_strict (group_of ts_year ts y series) = None \<longrightarrow>
        clim ts series = None)
   \<and> clim example_times [Some 1, Some 2, Some 6] \<noteq> mean_strict [Some 1, Some 2, Some 6]"
proof (intro conjI impI)
  assume "da_axis da = Time ts \<and> ts \<noteq> []"
  then show "aggregate env (Some ''CLIM'') da
      = Inr (da\<lparr>da_axis := Reduced,
                da_data := map (map (\<lambda>series. [clim ts series])) (da_data da)\<rparr>)"
    by (simp add: aggregate_def)
next
  show "clim ts series
     = mean_strict (map (\<lambda>y. mean_strict (group_of ts_year ts y series)) (labels ts_year ts))"
    by (simp add: clim_def yearly_means_def)
next
  assume "length series = length ts \<and> ts \<noteq> [] \<and> \<not> list_ex isnan series"
  then show "clim ts series
        = Some (mean (map (\<lambda>y. mean (map the (group_of ts_year ts y series)))
                          (labels ts_year ts)))"
    by (simp add: clim_no_missing)
next
  assume "(t, None) \<in> set (zip ts series)"
  then show "mean_strict (group_of ts_year ts (ts_year t) series) = None"
    by (rule clim_step_missing)
next
  assume "(t, None) \<in> set (zip ts series)"
  then show "clim ts series = None" by (rule clim_step_missing)
next
  assume "y \<in> set (labels ts_year ts) \<and> mean_strict (group_of ts_year ts y series) = None"
  then show "clim ts series = None" by (auto intro: clim_year_missing)
next
  show "clim example_times [Some 1, Some 2, Some 6] \<noteq> mean_strict [Some 1, Some 2, Some 6]"
    by (simp add: clim_def yearly_means_def labels_def group_of_def example_times_def
        mean_strict_def mean_def isnan_def)
qed

theorem clim_is_mean_of_yearly_means_witness:
  "aggregate example_env (Some ''CLIM'') (uniform_field (Some ''degC'') [Some 1, Some 2, Some 6])
   = Inr ((uniform_field (Some ''degC'') [Some 1, Some 2, Some 6])
            \<lparr>da_axis := Reduced, da_data := replicate 72 (replicate 144 [Some (15 / 4)])\<rparr>)
   \<and> clim example_times [Some 1, Some 2, Some 6] = Some (15 / 4)
   \<and> mean_strict (group_of ts_year example_times 2000 [Some 1, None, Some 6]) = None
   \<and> clim example_times [Some 1, None, Some 6] = None"
proof -
  note full = clim_is_mean_of_yearly_means
    [where da = "uniform_field (Some ''degC'') [Some 1, Some 2, Some 6]" and ts = example_times
       and series = "[Some 1, Some 2, Some 6]" and t = "hd example_times" and y = 2000
       and env = example_env]
  note gap = clim_is_mean_of_yearly_means
    [where da = "uniform_field (Some ''degC'') [Some 1, None, Some 6]" and ts = example_times
       and series = "[Some 1, None, Some 6]" and t = "example_times ! 1" and y = 2000
       and env = example_env]
  have h1: "da_axis (uniform_field (Some ''degC'') [Some 1, Some 2, Some 6]) = Time example_times
            \<and> example_times \<noteq> []"
    by (simp add: uniform_field_def example_times_def)
  have h3: "length [Some 1, Some 2, Some (6::real)] = length example_times \<and> example_times \<noteq> []
            \<and> \<not> list_ex isnan [Some 1, Some 2, Some 6]"
    by (simp add: example_times_def isnan_def)
  have h4: "(example_times ! 1, None) \<in> set (zip example_times [Some 1, None, Some (6::real)])"
    by (simp add: example_times_def)
  have year: "ts_year (example_times ! 1) = 2000"
    by (simp add: example_times_def)
  have vals: "mean (map (\<lambda>y. mean (map the (group_of ts_year example_times y
                    [Some 1, Some 2, Some 6]))) (labels ts_year example_times)) = 15 / 4"
    by (simp add: labels_def group_of_def example_times_def mean_def)
  note a = full [THEN conjunct1, THEN mp, OF h1]
  note c = full [THEN conjunct2, THEN conjunct2, THEN conjunct1, THEN mp, OF h3]
  note g = gap [THEN conjunct2, THEN conjunct2, THEN conjunct2, THEN conjunct1, THEN mp, OF h4]
  have c': "clim example_times [Some 1, Some 2, Some 6] = Some (15 / 4)"
    using c vals by simp
  have "da_data (uniform_field (Some ''degC'') [Some 1, Some 2, Some 6])
        = replicate 72 (replicate 144 [Some 1, Some 2, Some 6])"
    by (simp add: uniform_field_def)
  with a c' have "aggregate example_env (Some ''CLIM'')
       (uniform_field (Some ''degC'') [Some 1, Some 2, Some 6])
     = Inr ((uniform_field (Some ''degC'') [Some 1, Some 2, Some 6])
            \<lparr>da_axis := Reduced, da_data := replicate 72 (replicate 144 [Some (15 / 4)])\<rparr>)"
    by simp
  with c' g year show ?thesis by simp
qed

section \<open>Evaluating the pipeline on the examples\<close>

lemma length_grid [simp]: "length grid_lat = 72" "length grid_lon = 144"
  by (simp_all add: grid_lat_def grid_lon_def)

lemma map_zip_snd: "length xs = length ys \<Longrightarrow> map (\<lambda>(x, y). f y) (zip xs ys) = map f ys"
  by (induction xs ys rule: list_induct2) simp_all

lemma where_cells_nowhere:
  assumes "length (da_data da) = length (da_lat da)"
    and "list_all (\<lambda>row. length row = length (da_lon da)) (da_data da)"
  shows "where_cells (\<lambda>lat lon. False) da
         = da\<lparr>da_data := map (map (map (\<lambda>_. None))) (da_data da)\<rparr>"
proof -
  have "map (\<lambda>(lon, series). map (\<lambda>_. None :: fval) series) (zip (da_lon da) row)
        = map (map (\<lambda>_. None)) row" if "row \<in> set (da_data da)" for row
    using assms(2) that by (intro map_zip_snd) (simp add: list_all_iff)
  then have "map (\<lambda>(lat, row). map (\<lambda>(lon, series). map (\<lambda>_. None :: fval) series) (zip (da_lon da) row))
                 (zip (da_lat da) (da_data da))
             = map (map (map (\<lambda>_. None))) (da_data da)"
    using assms(1) by (simp add: map_zip_snd)
  then show ?thesis by (simp add: where_cells_def)
qed

lemma where_cells_nowhere_uniform:
  "where_cells (\<lambda>lat lon. False) (uniform_field units series)
   = uniform_field units (map (\<lambda>_. None) series)"
proof -
  have "where_cells (\<lambda>lat lon. False) (uniform_field units series)
        = (uniform_field units series)
            \<lparr>da_data := map (map (map (\<lambda>_. None))) (da_data (uniform_field units series))\<rparr>"
    by (rule where_cells_nowhere) (simp_all add: uniform_field_def list_all_iff)
  then show ?thesis by (simp add: uniform_field_def)
qed

lemma select_land_example:
  "select_land example_env True (uniform_field units series)
   = uniform_field units (map (\<lambda>_. None) series)"
  by (simp add: select_land_def example_env_def where_cells_nowhere_uniform)

lemma if_Some_eq: "((if c then Some a else None) = Some b) = (c \<and> a = b)"
  by simp

lemma mask_region_example_MED:
  "mask_region example_env (RStr ''MED'') (uniform_field units series)
   = Inr (uniform_field units (map (\<lambda>_. None) series))"
  by (simp add: mask_region_def srex_region_def example_env_def bindE_def if_Some_eq
      where_cells_nowhere_uniform)

lemma uniform_field_sel [simp]:
  "da_axis (uniform_field units series) = Time example_times"
  "da_lat (uniform_field units series) = grid_lat"
  "da_lon (uniform_field units series) = grid_lon"
  "da_data (uniform_field units series) = replicate 72 (replicate 144 series)"
  "da_units (uniform_field units series) = units"
  "da_attrs (uniform_field units series) = []"
  "da_encoding (uniform_field units series) = []"
  by (simp_all add: uniform_field_def)

lemma example_params_sel [simp]:
  "p_time_period example_params = TPNone"
  "p_season example_params = None"
  "p_time_aggregation example_params = None"
  "p_mask_ocean example_params = False"
  "p_region example_params = RStr ''GLOBAL''"
  "p_overwrite example_params = False"
  "p_regrid example_params = False"
  by (simp_all add: example_params_def)

lemma example_input_sel [simp]:
  "nc_files (example_input units series) path
   = (if path = ''/data/tas/tas_mon_obs.nc'' then Some [(''tas'', uniform_field units series)]
      else None)"
  "w_log (example_input units series) = []"
  by (simp_all add: example_input_def example_world_def)

lemma calculate_basic_diagnostic_fresh:
  assumes "p_overwrite p \<or> outfile = None \<or> \<not> os_path_isfile w (the outfile)"
    and "read_input env w infile varn (p_regrid p) = (Inr da0, w1)"
  shows "calculate_basic_diagnostic env w infile varn outfile p
         = (case diagnose env varn p da0 of
              (Inl e, l) \<Rightarrow> (Inl e, logger l w1)
            | (Inr ds, l) \<Rightarrow>
                (Inr ds, case outfile of None \<Rightarrow> logger l w1
                                       | Some out \<Rightarrow> to_netcdf ds out (logger l w1)))"
  using assms by (auto simp: calculate_basic_diagnostic_def)

lemma read_example_input:
  "read_input env (example_input units series) ''/data/tas/tas_mon_obs.nc'' ''tas'' False
   = (Inr (uniform_field units series), example_input units series)"
  by (simp add: read_input_def open_dataset_def getitem_def bindE_def)

lemma example_fresh:
  assumes "p_regrid p = False"
  shows "calculate_basic_diagnostic env (example_input units series) ''/data/tas/tas_mon_obs.nc''
           ''tas'' (Some ''/out/tas_mon_obs.nc'') p
         = (case diagnose env ''tas'' p (uniform_field units series) of
              (Inl e, l) \<Rightarrow> (Inl e, logger l (example_input units series))
            | (Inr ds, l) \<Rightarrow>
                (Inr ds, to_netcdf ds ''/out/tas_mon_obs.nc'' (logger l (example_input units series))))"
proof -
  have "calculate_basic_diagnostic env (example_input units series) ''/data/tas/tas_mon_obs.nc''
           ''tas'' (Some ''/out/tas_mon_obs.nc'') p
        = (case diagnose env ''tas'' p (uniform_field units series) of
              (Inl e, l) \<Rightarrow> (Inl e, logger l (example_input units series))
            | (Inr ds, l) \<Rightarrow>
                (Inr ds, case Some ''/out/tas_mon_obs.nc'' of
                           None \<Rightarrow> logger l (example_input units series)
                         | Some out \<Rightarrow> to_netcdf ds out (logger l (example_input units series))))"
    by (rule calculate_basic_diagnostic_fresh)
       (simp_all add: os_path_isfile_def read_example_input assms)
  then show ?thesis by (simp split: prod.splits sum.splits)
qed

lemma validate_uniform:
  "bindE (standardize_dimensions example_env (uniform_field units series)) check_grid
   = Inr (uniform_field units series)"
  by (simp add: example_env_def bindE_def check_grid_def)

lemma select_ocean_uniform:
  "select example_env (example_params\<lparr>p_mask_ocean := True\<rparr>) (uniform_field units series)
   = (Inr (uniform_field units (map (\<lambda>_. None) series)), [])"
  by (simp add: select_def select_time_period_def select_season_def select_region_def
      bindE_def select_land_example)

lemma diagnose_ocean_uniform:
  "diagnose example_env ''tas'' (example_params\<lparr>p_mask_ocean := True\<rparr>)
     (uniform_field (Some ''degC'') series)
   = (Inr [(''tas'', uniform_field (Some ''degC'') (map (\<lambda>_. None) series))], [])"
proof -
  have "standardize_units (uniform_field (Some ''degC'') (map (\<lambda>_. None) series)) ''tas''
        = (Inr (Some (uniform_field (Some ''degC'') (map (\<lambda>_. None) series))), [])"
    by (simp add: standardize_units_def)
  then show ?thesis
    by (simp add: diagnose_def validate_uniform select_ocean_uniform aggregate_def
        aggregate_units_def)
qed

section \<open>The order of the stages\<close>

lemma diagnose_validation_fails:
  "bindE (standardize_dimensions env da0) check_grid = Inl e \<Longrightarrow>
   diagnose env varn p da0 = (Inl e, [])"
  by (simp add: diagnose_def)

lemma diagnose_selection_fails:
  "bindE (standardize_dimensions env da0) check_grid = Inr da1 \<Longrightarrow>
   select env p da1 = (Inl e, l) \<Longrightarrow> diagnose env varn p da0 = (Inl e, l)"
  by (simp add: diagnose_def)

lemma diagnose_units_fail:
  "bindE (standardize_dimensions env da0) check_grid = Inr da1 \<Longrightarrow>
   select env p da1 = (Inr da2, l) \<Longrightarrow> standardize_units da2 varn = (Inl e, l') \<Longrightarrow>
   diagnose env varn p da0 = (Inl e, l @ l')"
  by (simp add: diagnose_def)

lemma diagnose_succeeds:
  "bindE (standardize_dimensions env da0) check_grid = Inr da1 \<Longrightarrow>
   select env p da1 = (Inr da2, l) \<Longrightarrow> standardize_units da2 varn = (Inr (Some da3), l') \<Longrightarrow>
   aggregate env (p_time_aggregation p) da3 = Inr da4 \<Longrightarrow>
   aggregate_units (p_time_aggregation p) (da_units da3) = Inr units \<Longrightarrow>
   diagnose env varn p da0
   = (Inr [(varn, da4\<lparr>da_units := units, da_attrs := da_attrs da3,
                        da_encoding := da_encoding da0\<rparr>)], l @ l')"
  by (simp add: diagnose_def)

lemma select_uniform_default:
  "select example_env (example_params\<lparr>p_time_aggregation := agg\<rparr>) (uniform_field units series)
   = (Inr (uniform_field units series), [])"
  by (simp add: select_def select_time_period_def select_season_def select_region_def
      select_land_def bindE_def)

lemma select_uniform_bad_season:
  "select example_env (example_params\<lparr>p_season := Some ''WINTER''\<rparr>) (uniform_field units series)
   = (Inl (NotImplementedError ''season=WINTER''), [])"
  by (simp add: select_def select_time_period_def select_season_def bindE_def)

lemma diagnose_uniform_bad_season:
  "diagnose example_env ''tas'' (example_params\<lparr>p_season := Some ''WINTER''\<rparr>)
     (uniform_field units series) = (Inl (NotImplementedError ''season=WINTER''), [])"
  by (rule diagnose_selection_fails) (rule validate_uniform, rule select_uniform_bad_season)

lemma short_not_grid_lat: "length xs \<noteq> 72 \<Longrightarrow> xs \<noteq> grid_lat"
  by auto

text \<open>
  A field in inches, a unit the normaliser rejects for \<open>tas\<close>, requested for the season
  \<open>WINTER\<close>, which the selection rejects: the pipeline raises the error of the selection,
  where the stated order would raise the error of the units.
\<close>

theorem selection_runs_before_units:
  "fst (calculate_basic_diagnostic example_env
          (example_input (Some ''inch'') [Some 1, Some 2, Some 6])
          ''/data/tas/tas_mon_obs.nc'' ''tas'' (Some ''/out/tas_mon_obs.nc'')
          (example_params\<lparr>p_season := Some ''WINTER''\<rparr>))
   = Inl (NotImplementedError ''season=WINTER'')
   \<and> fst (diagnose_as_claimed example_env ''tas'' (example_params\<lparr>p_season := Some ''WINTER''\<rparr>)
            (uniform_field (Some ''inch'') [Some 1, Some 2, Some 6]))
     = Inl (ValueError ''Unit inch not covered for tas'')"
proof -
  have "standardize_units (uniform_field (Some ''inch'') [Some 1, Some 2, Some 6]) ''tas''
        = (Inl (ValueError ''Unit inch not covered for tas''), [])"
    by (simp add: standardize_units_def unit_not_covered_def lower_def lower_char_def)
  then show ?thesis
    by (simp add: example_fresh diagnose_uniform_bad_season diagnose_as_claimed_def
        validate_uniform)
qed

text \<open>
  C6, as the code has it. A call that computes afresh returns what the stages return in the
  order validation, selection, unit normalisation, reduction: a failed validation ends the
  call; a failed selection ends it whatever the units are; failed units end it whatever the
  aggregation is; otherwise the result is the reduction of the normalised selected field,
  with the units and attributes the normaliser left and the encoding of the input.
\<close>

theorem pipeline_stage_order:
  "((p_overwrite p \<or> outfile = None \<or> \<not> os_path_isfile w (the outfile))
     \<and> read_input env w infile varn (p_regrid p) = (Inr da0, w1) \<longrightarrow>
      fst (calculate_basic_diagnostic env w infile varn outfile p)
      = fst (diagnose env varn p da0))
   \<and> (bindE (standardize_dimensions env da0) check_grid = Inl e \<longrightarrow>
        diagnose env varn p da0 = (Inl e, []))
   \<and> (bindE (standardize_dimensions env da0) check_grid = Inr da1
       \<and> select env p da1 = (Inl e, l) \<longrightarrow>
        diagnose env varn p da0 = (Inl e, l))
   \<and> (bindE (standardize_dimensions env da0) check_grid = Inr da1
       \<and> select env p da1 = (Inr da2, l) \<and> standardize_units da2 varn = (Inl e, l') \<longrightarrow>
        diagnose env varn p da0 = (Inl e, l @ l'))
   \<and> (bindE (standardize_dimensions env da0) check_grid = Inr da1
       \<and> select env p da1 = (Inr da2, l) \<and> standardize_units da2 varn = (Inr (Some da3), l')
       \<and> aggregate env (p_time_aggregation p) da3 = Inr da4
       \<and> aggregate_units (p_time_aggregation p) (da_units da3) = Inr units \<longrightarrow>
        diagnose env varn p da0
        = (Inr [(varn, da4\<lparr>da_units := units, da_attrs := da_attrs da3,
                             da_encoding := da_encoding da0\<rparr>)], l @ l'))"
proof (intro conjI impI)
  assume "(p_overwrite p \<or> outfile = None \<or> \<not> os_path_isfile w (the outfile))
     \<and> read_input env w infile varn (p_regrid p) = (Inr da0, w1)"
  then have "calculate_basic_diagnostic env w infile varn outfile p
         = (case diagnose env varn p da0 of
              (Inl e, l) \<Rightarrow> (Inl e, logger l w1)
            | (Inr ds, l) \<Rightarrow>
                (Inr ds, case outfile of None \<Rightarrow> logger l w1
                                       | Some out \<Rightarrow> to_netcdf ds out (logger l w1)))"
    by (intro calculate_basic_diagnostic_fresh) simp_all
  then show "fst (calculate_basic_diagnostic env w infile varn outfile p)
      = fst (diagnose env varn p da0)"
    by (simp split: prod.splits sum.splits)
next
  assume "bindE (standardize_dimensions env da0) check_grid = Inl e"
  then show "diagnose env varn p da0 = (Inl e, [])" by (rule diagnose_validation_fails)
next
  assume "bindE (standardize_dimensions env da0) check_grid = Inr da1
       \<and> select env p da1 = (Inl e, l)"
  then show "diagnose env varn p da0 = (Inl e, l)"
    by (intro diagnose_selection_fails [where ?da1.0 = da1]) simp_all
next
  assume "bindE (standardize_dimensions env da0) check_grid = Inr da1
       \<and> select env p da1 = (Inr da2, l) \<and> standardize_units da2 varn = (Inl e, l')"
  then show "diagnose env varn p da0 = (Inl e, l @ l')"
    by (intro diagnose_units_fail [where ?da1.0 = da1 and ?da2.0 = da2]) simp_all
next
  assume "bindE (standardize_dimensions env da0) check_grid = Inr da1
       \<and> select env p da1 = (Inr da2, l) \<and> standardize_units da2 varn = (Inr (Some da3), l')
       \<and> aggregate env (p_time_aggregation p) da3 = Inr da4
       \<and> aggregate_units (p_time_aggregation p) (da_units da3) = Inr units"
  then show "diagnose env varn p da0
        = (Inr [(varn, da4\<lparr>da_units := units, da_attrs := da_attrs da3,
                             da_encoding := da_encoding da0\<rparr>)], l @ l')"
    by (intro diagnose_succeeds [where ?da1.0 = da1 and ?da2.0 = da2]) simp_all
qed

lemma clim_example: "clim example_times [Some 1, Some 2, Some 6] = Some (15 / 4)"
  by (simp add: clim_def yearly_means_def labels_def group_of_def example_times_def
      mean_strict_def mean_def isnan_def)

theorem pipeline_stage_order_witness:
  "fst (calculate_basic_diagnostic example_env
          (example_input (Some ''K'') example_kelvin)
          ''/data/tas/tas_mon_obs.nc'' ''tas'' (Some ''/out/tas_mon_obs.nc'')
          (example_params\<lparr>p_time_aggregation := Some ''CLIM''\<rparr>))
   = Inr [(''tas'', (uniform_field (Some ''degC'') [Some 1, Some 2, Some 6])
                      \<lparr>da_axis := Reduced, da_data := replicate 72 (replicate 144 [Some (15 / 4)])\<rparr>)]
   \<and> diagnose example_env ''tas'' example_params
        \<lparr>da_axis = Time example_times, da_lat = [1.25], da_lon = [1.25],
         da_data = [[[Some 1, Some 2, Some 6]]], da_units = Some ''degC'', da_attrs = [],
         da_encoding = []\<rparr> = (Inl AssertionError, [])
   \<and> diagnose example_env ''tas'' (example_params\<lparr>p_season := Some ''WINTER''\<rparr>)
        (uniform_field (Some ''inch'') [Some 1, Some 2, Some 6])
     = (Inl (NotImplementedError ''season=WINTER''), [])
   \<and> diagnose example_env ''tas'' (example_params\<lparr>p_time_aggregation := Some ''CLIM''\<rparr>)
        (uniform_field (Some ''inch'') [Some 1, Some 2, Some 6])
     = (Inl (ValueError ''Unit inch not covered for tas''), [])"
proof -
  let ?k = "uniform_field (Some ''K'') example_kelvin"
  let ?c = "uniform_field (Some ''degC'') [Some 1, Some 2, Some 6]"
  let ?i = "uniform_field (Some ''inch'') [Some 1, Some 2, Some 6]"
  let ?w = "example_input (Some ''K'') example_kelvin"
  let ?p = "example_params\<lparr>p_time_aggregation := Some ''CLIM''\<rparr>"
  let ?s = "\<lparr>da_axis = Time example_times, da_lat = [1.25], da_lon = [1.25],
         da_data = [[[Some 1, Some 2, Some 6]]], da_units = Some ''degC'', da_attrs = [],
         da_encoding = []\<rparr>"
  let ?r = "?c\<lparr>da_axis := Reduced, da_data := replicate 72 (replicate 144 [Some (15 / 4)])\<rparr>"
  have kc: "standardize_units ?k ''tas'' = (Inr (Some ?c), [])"
    by (simp add: standardize_units_def map_data_def set_units_def uniform_field_def
        example_kelvin_def)
  have agg: "aggregate example_env (Some ''CLIM'') ?c = Inr ?r"
    by (simp add: aggregate_def example_times_def [symmetric] clim_example)
      (simp add: example_times_def)
  have h1: "(p_overwrite ?p \<or> Some ''/out/tas_mon_obs.nc'' = None
        \<or> \<not> os_path_isfile ?w (the (Some ''/out/tas_mon_obs.nc'')))
       \<and> read_input example_env ?w ''/data/tas/tas_mon_obs.nc'' ''tas'' (p_regrid ?p) = (Inr ?k, ?w)"
    by (simp add: os_path_isfile_def read_example_input)
  have h2: "bindE (standardize_dimensions example_env ?s) check_grid = Inl AssertionError"
    by (simp add: example_env_def bindE_def check_grid_def short_not_grid_lat)
  have h3: "bindE (standardize_dimensions example_env ?i) check_grid = Inr ?i
      \<and> select example_env (example_params\<lparr>p_season := Some ''WINTER''\<rparr>) ?i
        = (Inl (NotImplementedError ''season=WINTER''), [])"
    by (simp add: validate_uniform select_uniform_bad_season)
  have h4: "bindE (standardize_dimensions example_env ?i) check_grid = Inr ?i
      \<and> select example_env ?p ?i = (Inr ?i, [])
      \<and> standardize_units ?i ''tas'' = (Inl (ValueError ''Unit inch not covered for tas''), [])"
    by (simp add: validate_uniform select_uniform_default)
      (simp add: standardize_units_def unit_not_covered_def lower_def lower_char_def)
  have v: "bindE (standardize_dimensions example_env ?k) check_grid = Inr ?k"
    by (rule validate_uniform)
  have s: "select example_env ?p ?k = (Inr ?k, [])"
    by (rule select_uniform_default)
  have a: "aggregate example_env (p_time_aggregation ?p) ?c = Inr ?r"
    using agg by simp
  have u: "aggregate_units (p_time_aggregation ?p) (da_units ?c) = Inr (Some ''degC'')"
    by (simp add: aggregate_units_def)
  from v s kc a u
  have h5: "bindE (standardize_dimensions example_env ?k) check_grid = Inr ?k
      \<and> select example_env ?p ?k = (Inr ?k, [])
      \<and> standardize_units ?k ''tas'' = (Inr (Some ?c), [])
      \<and> aggregate example_env (p_time_aggregation ?p) ?c = Inr ?r
      \<and> aggregate_units (p_time_aggregation ?p) (da_units ?c) = Inr (Some ''degC'')"
    by blast
  note t1 = pipeline_stage_order [THEN conjunct1, THEN mp, OF h1]
  note t2 = pipeline_stage_order [THEN conjunct2, THEN conjunct1, THEN mp, OF h2]
  note t3 = pipeline_stage_order [THEN conjunct2, THEN conjunct2, THEN conjunct1, THEN mp, OF h3]
  note t4 = pipeline_stage_order [THEN conjunct2, THEN conjunct2, THEN conjunct2, THEN conjunct1,
      THEN mp, OF h4]
  note t5 = pipeline_stage_order [THEN conjunct2, THEN conjunct2, THEN conjunct2, THEN conjunct2,
      THEN mp, OF h5]
  have "?r\<lparr>da_units := Some ''degC'', da_attrs := da_attrs ?c, da_encoding := da_encoding ?k\<rparr> = ?r"
    by (simp add: uniform_field_def)
  with t1 t2 t3 t4 t5 show ?thesis by simp
qed

section \<open>The key of the cache\<close>

lemma os_path_join_cancel:
  assumes "os_path_join b (x @ c # y) = os_path_join b (x @ c # y')"
  shows "y = y'"
proof -
  have "take 1 (x @ c # y) = take 1 (x @ c # y')" by (cases x) simp_all
  with assms show ?thesis by (auto simp: os_path_join_def split: if_splits)
qed

lemma get_outfile_form:
  assumes "get_outfile base_path infile kw = Inr path"
  shows "\<exists>r bs s a. kw_region kw = Some r \<and> kw_time_period kw = Some (TPSeq bs)
           \<and> kw_season kw = Some s \<and> kw_time_aggregation kw = Some a
           \<and> path = os_path_join base_path
                      (str_replace ''.nc'' [] (os_path_basename infile) @ CHR ''_'' #
                       (py_str (bs ! 0) @ ''-'' @ py_str (bs ! 1) @ ''_'' @ str_opt s
                        @ ''_'' @ str_opt a @ ''_'' @ region_text r @ ''.nc''))"
  using assms
  by (auto simp: get_outfile_def Let_def split: option.splits time_period_arg.splits if_splits)

lemma get_outfile_season_differs:
  assumes "get_outfile base_path infile (kw\<lparr>kw_season := Some s\<rparr>) = Inr path"
    and "str_opt s' \<noteq> str_opt s"
  shows "get_outfile base_path infile (kw\<lparr>kw_season := Some s'\<rparr>) \<noteq> Inr path"
proof
  assume "get_outfile base_path infile (kw\<lparr>kw_season := Some s'\<rparr>) = Inr path"
  from get_outfile_form [OF this] get_outfile_form [OF assms(1)]
  have "str_opt s' = str_opt s" by (auto dest!: os_path_join_cancel)
  with assms(2) show False by simp
qed

lemma get_outfile_aggregation_differs:
  assumes "get_outfile base_path infile (kw\<lparr>kw_time_aggregation := Some a\<rparr>) = Inr path"
    and "str_opt a' \<noteq> str_opt a"
  shows "get_outfile base_path infile (kw\<lparr>kw_time_aggregation := Some a'\<rparr>) \<noteq> Inr path"
proof
  assume "get_outfile base_path infile (kw\<lparr>kw_time_aggregation := Some a'\<rparr>) = Inr path"
  from get_outfile_form [OF this] get_outfile_form [OF assms(1)]
  have "str_opt a' = str_opt a" by (auto dest!: os_path_join_cancel)
  with assms(2) show False by simp
qed

lemma get_outfile_region_differs:
  assumes "get_outfile base_path infile (kw\<lparr>kw_region := Some r\<rparr>) = Inr path"
    and "region_text r' \<noteq> region_text r"
  shows "get_outfile base_path infile (kw\<lparr>kw_region := Some r'\<rparr>) \<noteq> Inr path"
proof
  assume "get_outfile base_path infile (kw\<lparr>kw_region := Some r'\<rparr>) = Inr path"
  from get_outfile_form [OF this] get_outfile_form [OF assms(1)]
  have "region_text r' = region_text r" by (auto dest!: os_path_join_cancel)
  with assms(2) show False by simp
qed

lemma get_outfile_ignores:
  "get_outfile base_path infile (kw\<lparr>kw_mask_ocean := m, kw_overwrite := ov, kw_regrid := rg\<rparr>)
   = get_outfile base_path infile kw"
  by (simp add: get_outfile_def Let_def split: option.splits time_period_arg.splits)

lemma cached_result_is_returned:
  assumes "get_outfile base_path infile kw = Inr out" "nc_files w out = Some ds"
    and "kw_overwrite kw \<in> {None, Some False}"
  shows "fst (calculate_diagnostic env w infile (DStr varn) base_path kw) = Inr (Some ds)"
  using assms
  by (auto simp: calculate_diagnostic_def calculate_basic_diagnostic_def bind_kwargs_def
      os_path_isfile_def open_dataset_def logger_def Let_def)

lemma example_env_sel [simp]:
  "standardize_dimensions example_env da = Inr da"
  "sel_time_slice example_env start stop da = Inr da"
  by (simp_all add: example_env_def)

lemma map_data_uniform:
  "map_data f (uniform_field units series) = uniform_field units (map (map_option f) series)"
  by (simp add: map_data_def uniform_field_def)

lemma set_units_uniform: "set_units u (uniform_field units series) = uniform_field (Some u) series"
  by (simp add: set_units_def uniform_field_def)

lemma standardize_units_K_uniform:
  "standardize_units (uniform_field (Some ''K'') series) ''tas''
   = (Inr (Some (uniform_field (Some ''degC'') (map (map_option (\<lambda>x. x - 273.15)) series))), [])"
  by (simp add: standardize_units_def map_data_uniform set_units_uniform)

lemma aggregate_clim_uniform:
  "aggregate env (Some ''CLIM'') (uniform_field units series)
   = Inr ((uniform_field units series)
            \<lparr>da_axis := Reduced,
             da_data := replicate 72 (replicate 144 [clim example_times series])\<rparr>)"
  by (simp add: aggregate_def example_times_def [symmetric]) (simp add: example_times_def)

lemma clim_example_nan: "clim example_times [None, None, None] = None"
  by (simp add: clim_def yearly_means_def labels_def group_of_def example_times_def
      mean_strict_def isnan_def)

lemma example_kwargs_sel [simp]:
  "kw_time_period example_kwargs = Some (TPSeq [BInt 2000, BInt 2001])"
  "kw_season example_kwargs = Some (Some ''JJA'')"
  "kw_time_aggregation example_kwargs = Some (Some ''CLIM'')"
  "kw_mask_ocean example_kwargs = None"
  "kw_region example_kwargs = Some (RStr ''GLOBAL'')"
  "kw_overwrite example_kwargs = None"
  "kw_regrid example_kwargs = None"
  by (simp_all add: example_kwargs_def)

lemma example_outfile:
  "kw_time_period kw = Some (TPSeq [BInt 2000, BInt 2001]) \<Longrightarrow> kw_season kw = Some (Some ''ANN'')
   \<Longrightarrow> kw_time_aggregation kw = Some (Some ''CLIM'') \<Longrightarrow> kw_region kw = Some (RStr ''GLOBAL'')
   \<Longrightarrow> get_outfile ''/out'' ''/data/tas/tas_mon_obs.nc'' kw
       = Inr ''/out/tas_mon_obs_2000-2001_ANN_CLIM_GLOBAL.nc''"
  by (simp add: get_outfile_def os_path_basename_def str_replace_def os_path_join_def
      str_int_def str_nat.simps)

lemma example_diagnose_ANN:
  assumes "p_time_period p = TPSeq [BInt 2000, BInt 2001]" "p_season p = Some ''ANN''"
    "p_time_aggregation p = Some ''CLIM''" "p_region p = RStr ''GLOBAL''"
  shows "diagnose example_env ''tas'' p
           (uniform_field (Some ''K'') example_kelvin)
         = (Inr [(''tas'',
                  (uniform_field (Some ''degC'')
                     (if p_mask_ocean p then [None, None, None] else [Some 1, Some 2, Some 6]))
                    \<lparr>da_axis := Reduced,
                     da_data := replicate 72 (replicate 144
                        [if p_mask_ocean p then None else Some (15 / 4)])\<rparr>)], [])"
proof -
  let ?k = "uniform_field (Some ''K'') example_kelvin"
  let ?s = "if p_mask_ocean p then [None, None, None] else example_kelvin"
  let ?c = "if p_mask_ocean p then [None, None, None] else [Some 1, Some 2, Some (6::real)]"
  have sel: "select example_env p ?k = (Inr (uniform_field (Some ''K'') ?s), [])"
  proof (cases "p_mask_ocean p")
    case True
    with assms show ?thesis
      by (simp add: select_def select_time_period_def select_season_def select_region_def
          bindE_def select_land_example example_kelvin_def)
  next
    case False
    with assms show ?thesis
      by (simp add: select_def select_time_period_def select_season_def select_region_def
          bindE_def select_land_def)
  qed
  have units: "standardize_units (uniform_field (Some ''K'') ?s) ''tas''
       = (Inr (Some (uniform_field (Some ''degC'') ?c)), [])"
    by (simp add: standardize_units_K_uniform example_kelvin_def)
  have agg: "aggregate example_env (p_time_aggregation p) (uniform_field (Some ''degC'') ?c)
       = Inr ((uniform_field (Some ''degC'') ?c)
            \<lparr>da_axis := Reduced,
             da_data := replicate 72 (replicate 144
                [if p_mask_ocean p then None else Some (15 / 4)])\<rparr>)"
    using assms(3) by (simp add: aggregate_clim_uniform clim_example clim_example_nan)
  have au: "aggregate_units (p_time_aggregation p) (da_units (uniform_field (Some ''degC'') ?c))
       = Inr (Some ''degC'')"
    using assms(3) by (simp add: aggregate_units_def)
  have "diagnose example_env ''tas'' p ?k
        = (Inr [(''tas'',
             ((uniform_field (Some ''degC'') ?c)
                \<lparr>da_axis := Reduced,
                 da_data := replicate 72 (replicate 144
                    [if p_mask_ocean p then None else Some (15 / 4)])\<rparr>)
             \<lparr>da_units := Some ''degC'', da_attrs := da_attrs (uniform_field (Some ''degC'') ?c),
              da_encoding := da_encoding ?k\<rparr>)], [] @ [])"
    using validate_uniform sel units agg au by (rule diagnose_succeeds)
  then show ?thesis by (simp add: uniform_field_def)
qed

lemma logger_Nil: "logger [] w = w"
  by (simp add: logger_def)

lemma example_run_ANN:
  assumes "kw_time_period kw = Some (TPSeq [BInt 2000, BInt 2001])"
    "kw_season kw = Some (Some ''ANN'')" "kw_time_aggregation kw = Some (Some ''CLIM'')"
    "kw_region kw = Some (RStr ''GLOBAL'')" "kw_regrid kw = None" "kw_mask_ocean kw = Some b"
  shows "calculate_diagnostic example_env
           (example_input (Some ''K'') example_kelvin)
           ''/data/tas/tas_mon_obs.nc'' (DStr ''tas'') ''/out'' kw
         = (Inr (Some [(''tas'',
                  (uniform_field (Some ''degC'')
                     (if b then [None, None, None] else [Some 1, Some 2, Some 6]))
                    \<lparr>da_axis := Reduced,
                     da_data := replicate 72 (replicate 144 [if b then None else Some (15 / 4)])\<rparr>)]),
            to_netcdf [(''tas'',
                  (uniform_field (Some ''degC'')
                     (if b then [None, None, None] else [Some 1, Some 2, Some 6]))
                    \<lparr>da_axis := Reduced,
                     da_data := replicate 72 (replicate 144 [if b then None else Some (15 / 4)])\<rparr>)]
              ''/out/tas_mon_obs_2000-2001_ANN_CLIM_GLOBAL.nc''
              (example_input (Some ''K'') example_kelvin))"
proof -
  let ?w = "example_input (Some ''K'') example_kelvin"
  let ?out = "''/out/tas_mon_obs_2000-2001_ANN_CLIM_GLOBAL.nc''"
  have out: "get_outfile ''/out'' ''/data/tas/tas_mon_obs.nc'' kw = Inr ?out"
    using assms(1-4) by (rule example_outfile)
  have p: "p_time_period (bind_kwargs kw) = TPSeq [BInt 2000, BInt 2001]"
    "p_season (bind_kwargs kw) = Some ''ANN''" "p_time_aggregation (bind_kwargs kw) = Some ''CLIM''"
    "p_region (bind_kwargs kw) = RStr ''GLOBAL''" "p_regrid (bind_kwargs kw) = False"
    "p_mask_ocean (bind_kwargs kw) = b"
    using assms by (simp_all add: bind_kwargs_def)
  have "calculate_basic_diagnostic example_env ?w ''/data/tas/tas_mon_obs.nc'' ''tas''
          (Some ?out) (bind_kwargs kw)
        = (case diagnose example_env ''tas'' (bind_kwargs kw)
                  (uniform_field (Some ''K'') example_kelvin) of
              (Inl e, l) \<Rightarrow> (Inl e, logger l ?w)
            | (Inr ds, l) \<Rightarrow>
                (Inr ds, case Some ?out of None \<Rightarrow> logger l ?w
                                       | Some out \<Rightarrow> to_netcdf ds out (logger l ?w)))"
    by (rule calculate_basic_diagnostic_fresh)
       (simp_all add: os_path_isfile_def p read_example_input)
  then show ?thesis
    by (simp add: calculate_diagnostic_def out example_diagnose_ANN p logger_Nil)
qed

text \<open>
  Two requests that differ only in \<open>mask_ocean\<close>: both have the same output path; the
  first, without the mask, stores its climatology there, and the second, with the mask,
  returns that stored climatology, where computed afresh it would be missing everywhere
  (the land mask of the example has no land).
\<close>

theorem mask_ocean_flag_shares_output_path:
  "get_outfile ''/out'' ''/data/tas/tas_mon_obs.nc''
     (example_kwargs\<lparr>kw_season := Some (Some ''ANN''), kw_mask_ocean := Some False\<rparr>)
   = Inr ''/out/tas_mon_obs_2000-2001_ANN_CLIM_GLOBAL.nc''
   \<and> get_outfile ''/out'' ''/data/tas/tas_mon_obs.nc''
       (example_kwargs\<lparr>kw_season := Some (Some ''ANN''), kw_mask_ocean := Some True\<rparr>)
     = Inr ''/out/tas_mon_obs_2000-2001_ANN_CLIM_GLOBAL.nc''
   \<and> fst (calculate_diagnostic example_env
            (example_input (Some ''K'') example_kelvin)
            ''/data/tas/tas_mon_obs.nc'' (DStr ''tas'') ''/out''
            (example_kwargs\<lparr>kw_season := Some (Some ''ANN''), kw_mask_ocean := Some False\<rparr>))
     = Inr (Some [(''tas'', (uniform_field (Some ''degC'') [Some 1, Some 2, Some 6])
                    \<lparr>da_axis := Reduced, da_data := replicate 72 (replicate 144 [Some (15 / 4)])\<rparr>)])
   \<and> fst (calculate_diagnostic example_env
            (snd (calculate_diagnostic example_env
                    (example_input (Some ''K'') example_kelvin)
                    ''/data/tas/tas_mon_obs.nc'' (DStr ''tas'') ''/out''
                    (example_kwargs\<lparr>kw_season := Some (Some ''ANN''),
                                    kw_mask_ocean := Some False\<rparr>)))
            ''/data/tas/tas_mon_obs.nc'' (DStr ''tas'') ''/out''
            (example_kwargs\<lparr>kw_season := Some (Some ''ANN''), kw_mask_ocean := Some True\<rparr>))
     = Inr (Some [(''tas'', (uniform_field (Some ''degC'') [Some 1, Some 2, Some 6])
                    \<lparr>da_axis := Reduced, da_data := replicate 72 (replicate 144 [Some (15 / 4)])\<rparr>)])
   \<and> fst (calculate_diagnostic example_env
            (example_input (Some ''K'') example_kelvin)
            ''/data/tas/tas_mon_obs.nc'' (DStr ''tas'') ''/out''
            (example_kwargs\<lparr>kw_season := Some (Some ''ANN''), kw_mask_ocean := Some True\<rparr>))
     = Inr (Some [(''tas'', (uniform_field (Some ''degC'') [None, None, None])
                    \<lparr>da_axis := Reduced, da_data := replicate 72 (replicate 144 [None])\<rparr>)])"
proof -
  let ?kF = "example_kwargs\<lparr>kw_season := Some (Some ''ANN''), kw_mask_ocean := Some False\<rparr>"
  let ?kT = "example_kwargs\<lparr>kw_season := Some (Some ''ANN''), kw_mask_ocean := Some True\<rparr>"
  let ?w = "example_input (Some ''K'') example_kelvin"
  let ?out = "''/out/tas_mon_obs_2000-2001_ANN_CLIM_GLOBAL.nc''"
  let ?ds = "[(''tas'', (uniform_field (Some ''degC'') [Some 1, Some 2, Some 6])
                    \<lparr>da_axis := Reduced, da_data := replicate 72 (replicate 144 [Some (15 / 4)])\<rparr>)]"
  have oF: "get_outfile ''/out'' ''/data/tas/tas_mon_obs.nc'' ?kF = Inr ?out"
    by (rule example_outfile) simp_all
  have oT: "get_outfile ''/out'' ''/data/tas/tas_mon_obs.nc'' ?kT = Inr ?out"
    by (rule example_outfile) simp_all
  have rF: "calculate_diagnostic example_env ?w ''/data/tas/tas_mon_obs.nc'' (DStr ''tas'') ''/out'' ?kF
      = (Inr (Some ?ds), to_netcdf ?ds ?out ?w)"
    using example_run_ANN [where kw = ?kF and b = False] by simp
  have rT: "fst (calculate_diagnostic example_env ?w ''/data/tas/tas_mon_obs.nc'' (DStr ''tas'')
        ''/out'' ?kT)
      = Inr (Some [(''tas'', (uniform_field (Some ''degC'') [None, None, None])
                    \<lparr>da_axis := Reduced, da_data := replicate 72 (replicate 144 [None])\<rparr>)])"
    using example_run_ANN [where kw = ?kT and b = True] by simp
  have reuse: "fst (calculate_diagnostic example_env (to_netcdf ?ds ?out ?w)
        ''/data/tas/tas_mon_obs.nc'' (DStr ''tas'') ''/out'' ?kT) = Inr (Some ?ds)"
    using oT by (rule cached_result_is_returned) (simp_all add: to_netcdf_def)
  from oF oT rF rT reuse show ?thesis by (simp only: fst_conv snd_conv simp_thms)
qed

text \<open>
  C5, as the code has it. The output path does not depend on the mask-ocean, overwrite and
  regrid arguments, nor on the variable: whenever a file exists at the path and overwrite
  is not set, the call returns that file, whatever the variable and the mask-ocean flag.
  Requests that differ only in the text of the season, of the aggregation or of the region
  have different output paths.
\<close>

theorem output_path_is_the_cache_key:
  "get_outfile base_path infile (kw\<lparr>kw_mask_ocean := m, kw_overwrite := ov, kw_regrid := rg\<rparr>)
   = get_outfile base_path infile kw
   \<and> (get_outfile base_path infile kw = Inr out \<and> nc_files w out = Some ds
       \<and> kw_overwrite kw \<in> {None, Some False} \<longrightarrow>
        fst (calculate_diagnostic env w infile (DStr varn) base_path kw) = Inr (Some ds))
   \<and> (get_outfile base_path infile (kw\<lparr>kw_season := Some s\<rparr>) = Inr path
       \<and> str_opt s' \<noteq> str_opt s \<longrightarrow>
        get_outfile base_path infile (kw\<lparr>kw_season := Some s'\<rparr>) \<noteq> Inr path)
   \<and> (get_outfile base_path infile (kw\<lparr>kw_time_aggregation := Some a\<rparr>) = Inr path
       \<and> str_opt a' \<noteq> str_opt a \<longrightarrow>
        get_outfile base_path infile (kw\<lparr>kw_time_aggregation := Some a'\<rparr>) \<noteq> Inr path)
   \<and> (get_outfile base_path infile (kw\<lparr>kw_region := Some r\<rparr>) = Inr path
       \<and> region_text r' \<noteq> region_text r \<longrightarrow>
        get_outfile base_path infile (kw\<lparr>kw_region := Some r'\<rparr>) \<noteq> Inr path)"
proof (intro conjI impI)
  show "get_outfile base_path infile (kw\<lparr>kw_mask_ocean := m, kw_overwrite := ov, kw_regrid := rg\<rparr>)
   = get_outfile base_path infile kw"
    by (rule get_outfile_ignores)
next
  assume "get_outfile base_path infile kw = Inr out \<and> nc_files w out = Some ds
       \<and> kw_overwrite kw \<in> {None, Some False}"
  then show "fst (calculate_diagnostic env w infile (DStr varn) base_path kw) = Inr (Some ds)"
    by (intro cached_result_is_returned [where out = out]) simp_all
next
  assume "get_outfile base_path infile (kw\<lparr>kw_season := Some s\<rparr>) = Inr path
       \<and> str_opt s' \<noteq> str_opt s"
  then show "get_outfile base_path infile (kw\<lparr>kw_season := Some s'\<rparr>) \<noteq> Inr path"
    by (intro get_outfile_season_differs [where s = s]) simp_all
next
  assume "get_outfile base_path infile (kw\<lparr>kw_time_aggregation := Some a\<rparr>) = Inr path
       \<and> str_opt a' \<noteq> str_opt a"
  then show "get_outfile base_path infile (kw\<lparr>kw_time_aggregation := Some a'\<rparr>) \<noteq> Inr path"
    by (intro get_outfile_aggregation_differs [where a = a]) simp_all
next
  assume "get_outfile base_path infile (kw\<lparr>kw_region := Some r\<rparr>) = Inr path
       \<and> region_text r' \<noteq> region_text r"
  then show "get_outfile base_path infile (kw\<lparr>kw_region := Some r'\<rparr>) \<noteq> Inr path"
    by (intro get_outfile_region_differs [where r = r]) simp_all
qed

theorem output_path_is_the_cache_key_witness:
  "fst (calculate_diagnostic example_env
          (example_world [(''/out/tas_mon_obs_2000-2001_ANN_CLIM_GLOBAL.nc'',
                           [(''tas'', uniform_field (Some ''degC'') [Some 1])])])
          ''/data/tas/tas_mon_obs.nc'' (DStr ''pr'') ''/out''
          (example_kwargs\<lparr>kw_season := Some (Some ''ANN''), kw_mask_ocean := Some True\<rparr>))
   = Inr (Some [(''tas'', uniform_field (Some ''degC'') [Some 1])])
   \<and> get_outfile ''/out'' ''/data/tas/tas_mon_obs.nc''
       (example_kwargs\<lparr>kw_season := Some (Some ''DJF'')\<rparr>)
     \<noteq> Inr ''/out/tas_mon_obs_2000-2001_ANN_CLIM_GLOBAL.nc''
   \<and> get_outfile ''/out'' ''/data/tas/tas_mon_obs.nc''
       (example_kwargs\<lparr>kw_season := Some (Some ''ANN''),
                       kw_time_aggregation := Some (Some ''STD'')\<rparr>)
     \<noteq> Inr ''/out/tas_mon_obs_2000-2001_ANN_CLIM_GLOBAL.nc''
   \<and> get_outfile ''/out'' ''/data/tas/tas_mon_obs.nc''
       (example_kwargs\<lparr>kw_season := Some (Some ''ANN''),
                       kw_region := Some (RList [''CEU'', ''MED''])\<rparr>)
     \<noteq> Inr ''/out/tas_mon_obs_2000-2001_ANN_CLIM_GLOBAL.nc''"
proof -
  let ?k = "example_kwargs\<lparr>kw_season := Some (Some ''ANN'')\<rparr>"
  let ?kT = "example_kwargs\<lparr>kw_season := Some (Some ''ANN''), kw_mask_ocean := Some True\<rparr>"
  let ?out = "''/out/tas_mon_obs_2000-2001_ANN_CLIM_GLOBAL.nc''"
  let ?ds = "[(''tas'', uniform_field (Some ''degC'') [Some 1])]"
  have o: "get_outfile ''/out'' ''/data/tas/tas_mon_obs.nc'' ?k = Inr ?out"
    by (rule example_outfile) simp_all
  have h2: "get_outfile ''/out'' ''/data/tas/tas_mon_obs.nc'' ?kT = Inr ?out
      \<and> nc_files (example_world [(?out, ?ds)]) ?out = Some ?ds
      \<and> kw_overwrite ?kT \<in> {None, Some False}"
    by (simp add: example_outfile example_world_def)
  have h3: "get_outfile ''/out'' ''/data/tas/tas_mon_obs.nc'' (?k\<lparr>kw_season := Some (Some ''ANN'')\<rparr>)
        = Inr ?out \<and> str_opt (Some ''DJF'') \<noteq> str_opt (Some ''ANN'')"
    using o by simp
  have h4: "get_outfile ''/out'' ''/data/tas/tas_mon_obs.nc''
         (?k\<lparr>kw_time_aggregation := Some (Some ''CLIM'')\<rparr>) = Inr ?out
      \<and> str_opt (Some ''STD'') \<noteq> str_opt (Some ''CLIM'')"
    by (simp add: example_outfile)
  have h5: "get_outfile ''/out'' ''/data/tas/tas_mon_obs.nc''
         (?k\<lparr>kw_region := Some (RStr ''GLOBAL'')\<rparr>) = Inr ?out
      \<and> region_text (RList [''CEU'', ''MED'']) \<noteq> region_text (RStr ''GLOBAL'')"
    by (simp add: example_outfile)
  note t2 = output_path_is_the_cache_key [where env = example_env and varn = "''pr''",
      THEN conjunct2, THEN conjunct1, THEN mp, OF h2]
  note t3 = output_path_is_the_cache_key [THEN conjunct2, THEN conjunct2, THEN conjunct1,
      THEN mp, OF h3]
  note t4 = output_path_is_the_cache_key [THEN conjunct2, THEN conjunct2, THEN conjunct2,
      THEN conjunct1, THEN mp, OF h4]
  note t5 = output_path_is_the_cache_key [THEN conjunct2, THEN conjunct2, THEN conjunct2,
      THEN conjunct2, THEN mp, OF h5]
  from t2 t3 t4 t5 show ?thesis by simp
qed

section \<open>The check for an empty region\<close>

lemma select_region_all_masked:
  assumes "region \<noteq> RStr ''GLOBAL''" "mask_region env region da = Inr da'"
    "first_slice_all_nan da' = Inr True"
  shows "select_region env region da = (Inl (ValueError all_masked), [(ERROR, all_masked)])"
  using assms by (simp add: select_region_def)

lemma select_region_Inr:
  assumes "region \<noteq> RStr ''GLOBAL''" "select_region env region da = (Inr da', l)"
  shows "mask_region env region da = Inr da' \<and> first_slice_all_nan da' = Inr False"
  using assms by (auto simp: select_region_def split: sum.splits bool.splits)

lemma diagnose_all_masked:
  assumes "bindE (standardize_dimensions env da0) check_grid = Inr da1"
    and "bindE (select_time_period env (p_time_period p) da1) (select_season (p_season p)) = Inr da2"
    and "p_region p \<noteq> RStr ''GLOBAL''" "mask_region env (p_region p) da2 = Inr da3"
    and "first_slice_all_nan da3 = Inr True"
  shows "diagnose env varn p da0 = (Inl (ValueError all_masked), [(ERROR, all_masked)])"
proof -
  have "select env p da1 = (Inl (ValueError all_masked), [(ERROR, all_masked)])"
    using assms(2-5) by (simp add: select_def select_region_all_masked)
  with assms(1) show ?thesis by (simp add: diagnose_def)
qed

lemma select_nothing:
  "bindE (select_time_period env TPNone da) (select_season None) = Inr da"
  by (simp add: select_time_period_def select_season_def bindE_def)

lemma first_slice_uniform_nan:
  "first_slice_all_nan (uniform_field units [None, None, None]) = Inr True"
  by (simp add: first_slice_all_nan_def example_times_def isnan_def list_all_iff)

lemma uniform_as_bands:
  "uniform_field units series
   = (uniform_field units series)\<lparr>da_data := map (\<lambda>lat. replicate 144 series) grid_lat\<rparr>"
  by (simp add: uniform_field_def map_replicate_const)

lemma where_cells_bands:
  "where_cells (\<lambda>lat lon. P lat)
     ((uniform_field units series)\<lparr>da_data := map (\<lambda>lat. replicate 144 (f lat)) grid_lat\<rparr>)
   = (uniform_field units series)
       \<lparr>da_data := map (\<lambda>lat. replicate 144 (if P lat then f lat else map (\<lambda>_. None) (f lat)))
                      grid_lat\<rparr>"
proof -
  have row: "map (\<lambda>(lon, s). if P lat then s else map (\<lambda>_. None) s)
                 (zip grid_lon (replicate 144 (f lat)))
             = replicate 144 (if P lat then f lat else map (\<lambda>_. None) (f lat))" for lat
    by (simp add: zip_replicate2 comp_def map_replicate_const)
  have "map (\<lambda>(lat, row). map (\<lambda>(lon, s). if P lat then s else map (\<lambda>_. None) s) (zip grid_lon row))
            (zip grid_lat (map (\<lambda>lat. replicate 144 (f lat)) grid_lat))
        = map (\<lambda>lat. replicate 144 (if P lat then f lat else map (\<lambda>_. None) (f lat))) grid_lat"
    by (simp add: zip_map2 zip_same_conv_map comp_def row)
  then show ?thesis by (simp add: where_cells_def)
qed

lemma validate_uniform_land:
  "bindE (standardize_dimensions example_env_land (uniform_field units series)) check_grid
   = Inr (uniform_field units series)"
  by (simp add: example_env_land_def example_env_def bindE_def check_grid_def)

lemma example_env_land_sel [simp]:
  "srex_abbrevs example_env_land = [''CEU'', ''MED'']"
  "srex_map_keys example_env_land [''CEU''] = Inr [12]"
  "srex_mask example_env_land lat lon = (if 0 < lat then Some 12 else None)"
  "land_110_mask example_env_land lat lon = (if lat < 0 then Some 0 else None)"
  "salem_subset_roi example_env_land roi da = Inr da"
  by (simp_all add: example_env_land_def example_env_def)

lemma mask_region_land_CEU:
  "mask_region example_env_land (RStr ''CEU'') (uniform_field units series)
   = Inr ((uniform_field units series)
            \<lparr>da_data := map (\<lambda>lat. replicate 144 (if 0 < lat then series
                                                  else map (\<lambda>_. None) series)) grid_lat\<rparr>)"
proof -
  have "where_cells (\<lambda>lat lon. 0 < lat) (uniform_field units series)
        = (uniform_field units series)
            \<lparr>da_data := map (\<lambda>lat. replicate 144 (if 0 < lat then series
                                                  else map (\<lambda>_. None) series)) grid_lat\<rparr>"
    by (subst uniform_as_bands) (rule where_cells_bands)
  moreover have "(\<lambda>lat lon. length (filter (\<lambda>key. srex_mask example_env_land lat lon = Some key)
                                        [12]) = 1)
                 = (\<lambda>(lat::real) (lon::real). 0 < lat)"
    by (intro ext) simp
  ultimately show ?thesis
    by (simp add: mask_region_def srex_region_def bindE_def)
qed

lemma north_in_grid: "5 / 4 \<in> set grid_lat"
proof -
  have "- 88.75 + 2.5 * real 36 \<in> (\<lambda>i. - 88.75 + 2.5 * real i) ` set [0..<72]"
    by (rule imageI) simp
  then show ?thesis by (simp add: grid_lat_def)
qed

lemma first_slice_north:
  "first_slice_all_nan
     ((uniform_field units [Some 1, Some 2, Some (6::real)])
        \<lparr>da_data := map (\<lambda>lat. replicate 144 (if 0 < lat then [Some 1, Some 2, Some (6::real)]
                                              else map (\<lambda>_. None) [Some 1, Some 2, Some (6::real)]))
                       grid_lat\<rparr>) = Inr False"
proof -
  have "\<exists>lat\<in>set grid_lat. 0 < lat" using north_in_grid by force
  then show ?thesis
    by (auto simp: first_slice_all_nan_def example_times_def isnan_def list_all_iff)
qed

lemma select_land_bands:
  "select_land example_env_land True
     ((uniform_field units [Some 1, Some 2, Some (6::real)])
        \<lparr>da_data := map (\<lambda>lat. replicate 144 (if 0 < lat then [Some 1, Some 2, Some (6::real)]
                                              else map (\<lambda>_. None) [Some 1, Some 2, Some (6::real)]))
                       grid_lat\<rparr>)
   = uniform_field units [None, None, None]"
proof -
  have "(\<lambda>lat::real. replicate 144
            (if (if lat < 0 then Some 0 else None) = Some (0::nat)
             then if 0 < lat then [Some 1, Some 2, Some (6::real)]
                  else map (\<lambda>_. None) [Some 1, Some 2, Some (6::real)]
             else map (\<lambda>_. None)
                    (if 0 < lat then [Some 1, Some 2, Some (6::real)]
                     else map (\<lambda>_. None) [Some 1, Some 2, Some (6::real)])))
        = (\<lambda>lat. replicate 144 [None, None, None])"
    by (rule ext) simp
  then show ?thesis
    by (simp add: select_land_def where_cells_bands) (simp add: uniform_field_def map_replicate_const)
qed

lemma select_land_region_example:
  "select example_env_land (example_params\<lparr>p_region := RStr ''CEU'', p_mask_ocean := True\<rparr>)
     (uniform_field units [Some 1, Some 2, Some (6::real)])
   = (Inr (uniform_field units [None, None, None]), [])"
  by (simp add: select_def select_nothing select_region_def mask_region_land_CEU
      first_slice_north select_land_bands)

text \<open>
  A request for the region \<open>CEU\<close> with the ocean masked, where \<open>CEU\<close> covers the cells north
  of the equator and the land lies south of it: the region check passes, the ocean mask then
  removes every cell that is left, and the call returns a field without any value and
  raises nothing.
\<close>

theorem ocean_mask_leaves_nothing_unchecked:
  "fst (calculate_basic_diagnostic example_env_land
          (example_input (Some ''degC'') [Some 1, Some 2, Some (6::real)])
          ''/data/tas/tas_mon_obs.nc'' ''tas'' (Some ''/out/tas_mon_obs.nc'')
          (example_params\<lparr>p_region := RStr ''CEU'', p_mask_ocean := True\<rparr>))
   = Inr [(''tas'', uniform_field (Some ''degC'') [None, None, None])]
   \<and> first_slice_all_nan (uniform_field (Some ''degC'') [None, None, None]) = Inr True"
proof -
  note v = validate_uniform_land [of "Some ''degC''" "[Some 1, Some 2, Some (6::real)]"]
  have u: "standardize_units (uniform_field (Some ''degC'') [None, None, None]) ''tas''
           = (Inr (Some (uniform_field (Some ''degC'') [None, None, None])), [])"
    by (simp add: standardize_units_def)
  have "diagnose example_env_land ''tas''
          (example_params\<lparr>p_region := RStr ''CEU'', p_mask_ocean := True\<rparr>)
          (uniform_field (Some ''degC'') [Some 1, Some 2, Some (6::real)])
        = (Inr [(''tas'', uniform_field (Some ''degC'') [None, None, None])], [])"
    by (simp add: diagnose_def v select_land_region_example u aggregate_def aggregate_units_def)
  then show ?thesis
    by (simp add: example_fresh first_slice_uniform_nan)
qed

lemma select_after_region:
  assumes "bindE (select_time_period env (p_time_period p) da) (select_season (p_season p)) = Inr dt"
    and "select_region env (p_region p) dt = (Inr dr, l)"
  shows "select env p da = (Inr (select_land env (p_mask_ocean p) dr), l)"
  using assms by (simp add: select_def)

lemma diagnose_after_ocean_mask:
  assumes "bindE (standardize_dimensions env da0) check_grid = Inr da1"
    and "bindE (select_time_period env (p_time_period p) da1) (select_season (p_season p)) = Inr da2"
    and "select_region env (p_region p) da2 = (Inr da3, l)"
    and "standardize_units (select_land env (p_mask_ocean p) da3) varn = (Inr (Some da4), l')"
    and "aggregate env (p_time_aggregation p) da4 = Inr da5"
    and "aggregate_units (p_time_aggregation p) (da_units da4) = Inr units"
  shows "diagnose env varn p da0
         = (Inr [(varn, da5\<lparr>da_units := units, da_attrs := da_attrs da4,
                              da_encoding := da_encoding da0\<rparr>)], l @ l')"
proof -
  have "select env p da1 = (Inr (select_land env (p_mask_ocean p) da3), l)"
    using assms(2,3) by (rule select_after_region)
  with assms(1,4,5,6) show ?thesis by (simp add: diagnose_def)
qed

text \<open>
  C7, as the code has it. The check for an empty first time slice belongs to the region
  block: it is skipped for \<open>GLOBAL\<close>; it looks at the field as region masking left it, and
  when that field has a first time slice without any value the computation ends in
  \<open>ValueError\<close> with the message logged as an error. It is not repeated after the ocean
  mask: once the region block has passed, the selection returns the ocean-masked field
  whatever is left in it, and the pipeline goes on to normalise and reduce that field.
\<close>

theorem empty_region_check:
  "select_region env (RStr ''GLOBAL'') da = (Inr da, [])
   \<and> (region \<noteq> RStr ''GLOBAL'' \<and> mask_region env region da = Inr da'
       \<and> first_slice_all_nan da' = Inr True \<longrightarrow>
        select_region env region da = (Inl (ValueError all_masked), [(ERROR, all_masked)]))
   \<and> (region \<noteq> RStr ''GLOBAL'' \<and> select_region env region da = (Inr da', l) \<longrightarrow>
        mask_region env region da = Inr da' \<and> first_slice_all_nan da' = Inr False)
   \<and> ((p_overwrite p \<or> outfile = None \<or> \<not> os_path_isfile w (the outfile))
       \<and> read_input env w infile varn (p_regrid p) = (Inr da0, w1)
       \<and> bindE (standardize_dimensions env da0) check_grid = Inr da1
       \<and> bindE (select_time_period env (p_time_period p) da1) (select_season (p_season p))
         = Inr da2
       \<and> p_region p \<noteq> RStr ''GLOBAL'' \<and> mask_region env (p_region p) da2 = Inr da3
       \<and> first_slice_all_nan da3 = Inr True \<longrightarrow>
        calculate_basic_diagnostic env w infile varn outfile p
        = (Inl (ValueError all_masked), logger [(ERROR, all_masked)] w1))
   \<and> (bindE (select_time_period env (p_time_period p) da) (select_season (p_season p)) = Inr dt
       \<and> select_region env (p_region p) dt = (Inr dr, l) \<longrightarrow>
        select env p da = (Inr (select_land env (p_mask_ocean p) dr), l))
   \<and> (bindE (standardize_dimensions env da0) check_grid = Inr da1
       \<and> bindE (select_time_period env (p_time_period p) da1) (select_season (p_season p))
         = Inr da2
       \<and> select_region env (p_region p) da2 = (Inr da3, l)
       \<and> standardize_units (select_land env (p_mask_ocean p) da3) varn = (Inr (Some da4), l')
       \<and> aggregate env (p_time_aggregation p) da4 = Inr da5
       \<and> aggregate_units (p_time_aggregation p) (da_units da4) = Inr units \<longrightarrow>
        diagnose env varn p da0
        = (Inr [(varn, da5\<lparr>da_units := units, da_attrs := da_attrs da4,
                             da_encoding := da_encoding da0\<rparr>)], l @ l'))"
proof (intro conjI impI)
  show "select_region env (RStr ''GLOBAL'') da = (Inr da, [])"
    by (simp add: select_region_def)
next
  assume "region \<noteq> RStr ''GLOBAL'' \<and> mask_region env region da = Inr da'
       \<and> first_slice_all_nan da' = Inr True"
  then show "select_region env region da = (Inl (ValueError all_masked), [(ERROR, all_masked)])"
    by (simp add: select_region_all_masked)
next
  assume a: "region \<noteq> RStr ''GLOBAL'' \<and> select_region env region da = (Inr da', l)"
  then have "mask_region env region da = Inr da' \<and> first_slice_all_nan da' = Inr False"
    by (intro select_region_Inr) simp_all
  then show "mask_region env region da = Inr da'" "first_slice_all_nan da' = Inr False"
    by simp_all
next
  assume a: "(p_overwrite p \<or> outfile = None \<or> \<not> os_path_isfile w (the outfile))
       \<and> read_input env w infile varn (p_regrid p) = (Inr da0, w1)
       \<and> bindE (standardize_dimensions env da0) check_grid = Inr da1
       \<and> bindE (select_time_period env (p_time_period p) da1) (select_season (p_season p))
         = Inr da2
       \<and> p_region p \<noteq> RStr ''GLOBAL'' \<and> mask_region env (p_region p) da2 = Inr da3
       \<and> first_slice_all_nan da3 = Inr True"
  then have "diagnose env varn p da0 = (Inl (ValueError all_masked), [(ERROR, all_masked)])"
    by (intro diagnose_all_masked [where ?da1.0 = da1 and ?da2.0 = da2 and ?da3.0 = da3]) simp_all
  moreover from a have "calculate_basic_diagnostic env w infile varn outfile p
         = (case diagnose env varn p da0 of
              (Inl e, l) \<Rightarrow> (Inl e, logger l w1)
            | (Inr ds, l) \<Rightarrow>
                (Inr ds, case outfile of None \<Rightarrow> logger l w1
                                       | Some out \<Rightarrow> to_netcdf ds out (logger l w1)))"
    by (intro calculate_basic_diagnostic_fresh) simp_all
  ultimately show "calculate_basic_diagnostic env w infile varn outfile p
        = (Inl (ValueError all_masked), logger [(ERROR, all_masked)] w1)"
    by simp
next
  assume "bindE (select_time_period env (p_time_period p) da) (select_season (p_season p)) = Inr dt
       \<and> select_region env (p_region p) dt = (Inr dr, l)"
  then show "select env p da = (Inr (select_land env (p_mask_ocean p) dr), l)"
    by (intro select_after_region [where dt = dt]) simp_all
next
  assume "bindE (standardize_dimensions env da0) check_grid = Inr da1
       \<and> bindE (select_time_period env (p_time_period p) da1) (select_season (p_season p))
         = Inr da2
       \<and> select_region env (p_region p) da2 = (Inr da3, l)
       \<and> standardize_units (select_land env (p_mask_ocean p) da3) varn = (Inr (Some da4), l')
       \<and> aggregate env (p_time_aggregation p) da4 = Inr da5
       \<and> aggregate_units (p_time_aggregation p) (da_units da4) = Inr units"
  then show "diagnose env varn p da0
        = (Inr [(varn, da5\<lparr>da_units := units, da_attrs := da_attrs da4,
                             da_encoding := da_encoding da0\<rparr>)], l @ l')"
    by (intro diagnose_after_ocean_mask [where ?da1.0 = da1 and ?da2.0 = da2 and ?da3.0 = da3])
       simp_all
qed

theorem empty_region_check_witness:
  "select_region example_env (RStr ''MED'') (uniform_field (Some ''degC'') [Some 1, Some 2, Some 6])
   = (Inl (ValueError all_masked), [(ERROR, all_masked)])
   \<and> first_slice_all_nan
        \<lparr>da_axis = Time example_times, da_lat = [1.25], da_lon = [1.25],
         da_data = [[[Some 1, Some 2, Some 6]]], da_units = Some ''degC'', da_attrs = [],
         da_encoding = []\<rparr> = Inr False
   \<and> calculate_basic_diagnostic example_env (example_input (Some ''degC'') [Some 1, Some 2, Some 6])
        ''/data/tas/tas_mon_obs.nc'' ''tas'' (Some ''/out/tas_mon_obs.nc'')
        (example_params\<lparr>p_region := RStr ''MED''\<rparr>)
     = (Inl (ValueError all_masked),
        logger [(ERROR, all_masked)] (example_input (Some ''degC'') [Some 1, Some 2, Some 6]))
   \<and> select example_env_land (example_params\<lparr>p_region := RStr ''CEU'', p_mask_ocean := True\<rparr>)
        (uniform_field (Some ''degC'') [Some 1, Some 2, Some 6])
     = (Inr (uniform_field (Some ''degC'') [None, None, None]), [])
   \<and> diagnose example_env_land ''tas''
        (example_params\<lparr>p_region := RStr ''CEU'', p_mask_ocean := True\<rparr>)
        (uniform_field (Some ''degC'') [Some 1, Some 2, Some 6])
     = (Inr [(''tas'', uniform_field (Some ''degC'') [None, None, None])], [])"
proof -
  let ?u = "uniform_field (Some ''degC'') [Some 1, Some 2, Some (6::real)]"
  let ?n = "uniform_field (Some ''degC'') [None, None, None]"
  let ?b = "?u\<lparr>da_data := map (\<lambda>lat. replicate 144 (if 0 < lat then [Some 1, Some 2, Some (6::real)]
                                              else map (\<lambda>_. None) [Some 1, Some 2, Some (6::real)]))
                       grid_lat\<rparr>"
  let ?w = "example_input (Some ''degC'') [Some 1, Some 2, Some 6]"
  let ?p = "example_params\<lparr>p_region := RStr ''MED''\<rparr>"
  let ?q = "example_params\<lparr>p_region := RStr ''CEU'', p_mask_ocean := True\<rparr>"
  let ?c = "\<lparr>da_axis = Time example_times, da_lat = [1.25], da_lon = [1.25],
         da_data = [[[Some 1, Some 2, Some 6]]], da_units = Some ''degC'', da_attrs = [],
         da_encoding = []\<rparr>"
  have h2: "RStr ''MED'' \<noteq> RStr ''GLOBAL'' \<and> mask_region example_env (RStr ''MED'') ?u = Inr ?n
      \<and> first_slice_all_nan ?n = Inr True"
    by (simp add: mask_region_example_MED first_slice_uniform_nan)
  have h3: "RStr ''CEU'' \<noteq> RStr ''GLOBAL'' \<and> select_region example_env (RStr ''CEU'') ?c = (Inr ?c, [])"
    by (simp add: select_region_def mask_region_def srex_region_def example_env_def bindE_def
        where_cells_def mask_grid_def first_slice_all_nan_def example_times_def isnan_def)
  have h4: "(p_overwrite ?p \<or> Some ''/out/tas_mon_obs.nc'' = None
        \<or> \<not> os_path_isfile ?w (the (Some ''/out/tas_mon_obs.nc'')))
       \<and> read_input example_env ?w ''/data/tas/tas_mon_obs.nc'' ''tas'' (p_regrid ?p) = (Inr ?u, ?w)
       \<and> bindE (standardize_dimensions example_env ?u) check_grid = Inr ?u
       \<and> bindE (select_time_period example_env (p_time_period ?p) ?u) (select_season (p_season ?p))
         = Inr ?u
       \<and> p_region ?p \<noteq> RStr ''GLOBAL'' \<and> mask_region example_env (p_region ?p) ?u = Inr ?n
       \<and> first_slice_all_nan ?n = Inr True"
    by (simp add: os_path_isfile_def read_example_input validate_uniform select_nothing
        mask_region_example_MED first_slice_uniform_nan)
      (simp_all add: bindE_def check_grid_def example_env_def)
  have sr: "select_region example_env_land (p_region ?q) ?u = (Inr ?b, [])"
    by (simp add: select_region_def mask_region_land_CEU first_slice_north)
  have sl: "select_land example_env_land (p_mask_ocean ?q) ?b = ?n"
    by (simp add: select_land_bands)
  have h5: "bindE (select_time_period example_env_land (p_time_period ?q) ?u)
              (select_season (p_season ?q)) = Inr ?u
      \<and> select_region example_env_land (p_region ?q) ?u = (Inr ?b, [])"
    using sr by (simp add: select_nothing)
  have su: "standardize_units (select_land example_env_land (p_mask_ocean ?q) ?b) ''tas''
      = (Inr (Some ?n), [])"
    by (simp only: sl) (simp add: standardize_units_def)
  have h6: "bindE (standardize_dimensions example_env_land ?u) check_grid = Inr ?u
      \<and> bindE (select_time_period example_env_land (p_time_period ?q) ?u)
              (select_season (p_season ?q)) = Inr ?u
      \<and> select_region example_env_land (p_region ?q) ?u = (Inr ?b, [])
      \<and> standardize_units (select_land example_env_land (p_mask_ocean ?q) ?b) ''tas''
        = (Inr (Some ?n), [])
      \<and> aggregate example_env_land (p_time_aggregation ?q) ?n = Inr ?n
      \<and> aggregate_units (p_time_aggregation ?q) (da_units ?n) = Inr (Some ''degC'')"
    using sr su by (simp add: validate_uniform_land select_nothing aggregate_def aggregate_units_def)
  note t2 = empty_region_check [THEN conjunct2, THEN conjunct1, THEN mp, OF h2]
  note t3 = empty_region_check [THEN conjunct2, THEN conjunct2, THEN conjunct1, THEN mp, OF h3]
  note t4 = empty_region_check [THEN conjunct2, THEN conjunct2, THEN conjunct2, THEN conjunct1,
      THEN mp, OF h4]
  note t5 = empty_region_check [THEN conjunct2, THEN conjunct2, THEN conjunct2, THEN conjunct2,
      THEN conjunct1, THEN mp, OF h5]
  note t6 = empty_region_check [THEN conjunct2, THEN conjunct2, THEN conjunct2, THEN conjunct2,
      THEN conjunct2, THEN mp, OF h6]
  have "?n\<lparr>da_units := Some ''degC'', da_attrs := da_attrs ?n, da_encoding := da_encoding ?u\<rparr> = ?n"
    by (simp add: uniform_field_def)
  with t2 t3 t4 t5 t6 sl show ?thesis by simp
qed

section \<open>Keywords that the dispatcher needs\<close>
















section \<open>Correlation and missing values\<close>










end
